theory Spec2Isabelle
  imports Complex_Main "HOL-Library.Sublist"
begin

section \<open>JavaScript numbers\<close>

text \<open>
  The server computes with JavaScript numbers. They are modelled as exact rationals
  extended by the three special values that division produces: the quotient of a
  non-zero number by zero is an infinity, \<open>0 / 0\<close> is \<open>NaN\<close>, and every comparison with
  \<open>NaN\<close> is false. Rounding of binary floating point and the sign of zero are not
  modelled (zero counts as positive zero).
\<close>

datatype jsnum = Fin rat | PInf | NInf | NaN

fun js_lt :: "jsnum \<Rightarrow> jsnum \<Rightarrow> bool" where
  "js_lt NaN _ = False"
| "js_lt _ NaN = False"
| "js_lt (Fin x) (Fin y) = (x < y)"
| "js_lt (Fin _) PInf = True"
| "js_lt (Fin _) NInf = False"
| "js_lt PInf _ = False"
| "js_lt NInf NInf = False"
| "js_lt NInf _ = True"

definition js_gt :: "jsnum \<Rightarrow> jsnum \<Rightarrow> bool" where
  "js_gt a b = js_lt b a"

fun js_sub :: "jsnum \<Rightarrow> jsnum \<Rightarrow> jsnum" where
  "js_sub NaN _ = NaN"
| "js_sub _ NaN = NaN"
| "js_sub (Fin x) (Fin y) = Fin (x - y)"
| "js_sub (Fin _) PInf = NInf"
| "js_sub (Fin _) NInf = PInf"
| "js_sub PInf PInf = NaN"
| "js_sub PInf _ = PInf"
| "js_sub NInf NInf = NaN"
| "js_sub NInf _ = NInf"

fun js_mul :: "jsnum \<Rightarrow> jsnum \<Rightarrow> jsnum" where
  "js_mul NaN _ = NaN"
| "js_mul _ NaN = NaN"
| "js_mul (Fin x) (Fin y) = Fin (x * y)"
| "js_mul (Fin x) PInf = (if x = 0 then NaN else if 0 < x then PInf else NInf)"
| "js_mul (Fin x) NInf = (if x = 0 then NaN else if 0 < x then NInf else PInf)"
| "js_mul PInf (Fin y) = (if y = 0 then NaN else if 0 < y then PInf else NInf)"
| "js_mul NInf (Fin y) = (if y = 0 then NaN else if 0 < y then NInf else PInf)"
| "js_mul PInf PInf = PInf"
| "js_mul PInf NInf = NInf"
| "js_mul NInf PInf = NInf"
| "js_mul NInf NInf = PInf"

fun js_div :: "jsnum \<Rightarrow> jsnum \<Rightarrow> jsnum" where
  "js_div NaN _ = NaN"
| "js_div _ NaN = NaN"
| "js_div (Fin x) (Fin y) =
     (if y = 0 then (if x = 0 then NaN else if 0 < x then PInf else NInf)
      else Fin (x / y))"
| "js_div (Fin _) PInf = Fin 0"
| "js_div (Fin _) NInf = Fin 0"
| "js_div PInf (Fin y) = (if 0 \<le> y then PInf else NInf)"
| "js_div NInf (Fin y) = (if 0 \<le> y then NInf else PInf)"
| "js_div PInf _ = NaN"
| "js_div NInf _ = NaN"

text \<open>\<open>Math.abs\<close>.\<close>

fun js_abs :: "jsnum \<Rightarrow> jsnum" where
  "js_abs (Fin x) = Fin \<bar>x\<bar>"
| "js_abs PInf = PInf"
| "js_abs NInf = PInf"
| "js_abs NaN = NaN"

text \<open>Truthiness of a number: \<open>0\<close> and \<open>NaN\<close> are falsy.\<close>

fun truthy :: "jsnum \<Rightarrow> bool" where
  "truthy (Fin x) = (x \<noteq> 0)"
| "truthy PInf = True"
| "truthy NInf = True"
| "truthy NaN = False"

section \<open>Data model\<close>

datatype metal = Gold | Silver

text \<open>
  A quote as \<open>fetchGoldApiPrices\<close> and \<open>fetchFreePrices\<close> build it. The fields are
  typed as the data model has them: the prices are numbers, the two change fields are
  numbers or \<open>null\<close> (\<open>None\<close>). An upstream answer that lacks a field or carries
  something that is not a number there is outside this type.
\<close>

record quote =
  price :: jsnum
  pricePerGram :: jsnum
  change24h :: "jsnum option"
  changePercent24h :: "jsnum option"
  currency :: string

text \<open>
  One entry of \<open>priceHistory.gold\<close> or \<open>priceHistory.silver\<close>. The timestamp is the value
  of \<open>Date.now()\<close>, an integer number of milliseconds.
\<close>

record sample =
  sprice :: jsnum
  timestamp :: int

text \<open>
  \<open>lastUpdate\<close> holds \<open>null\<close> or the ISO string of an instant; the string is only ever
  read back with \<open>new Date(...).getTime()\<close>, so it is modelled by the instant in
  milliseconds.
\<close>

record priceCache_t =
  gold :: "quote option"
  silver :: "quote option"
  lastUpdate :: "int option"

record priceHistory_t =
  hgold :: "sample list"
  hsilver :: "sample list"

text \<open>\<open>priceCache[metal]\<close> and \<open>priceHistory[metal]\<close>.\<close>

fun cache_at :: "priceCache_t \<Rightarrow> metal \<Rightarrow> quote option" where
  "cache_at pc Gold = gold pc"
| "cache_at pc Silver = silver pc"

fun history_at :: "priceHistory_t \<Rightarrow> metal \<Rightarrow> sample list" where
  "history_at ph Gold = hgold ph"
| "history_at ph Silver = hsilver ph"

section \<open>The advice engine\<close>

datatype recommendation = BUY | HOLD | SELL

record advice_t =
  advice :: recommendation
  confidence :: int
  reasons :: "string list"

datatype jserror = TypeError

text \<open>
  \<open>Number.prototype.toFixed\<close> is a built-in of the language, not code of the server.
  The advice engine takes it as the parameter \<open>tf\<close> (number, digits); everything proved
  below holds for any such function.
\<close>

type_synonym toFixed_t = "jsnum \<Rightarrow> nat \<Rightarrow> string"

text \<open>
  Rule 1, the 24 hour change. The pair is the running \<open>score\<close> and \<open>reasons\<close>.
\<close>

definition shortTermTrend :: "toFixed_t \<Rightarrow> quote \<Rightarrow> int \<times> string list \<Rightarrow> int \<times> string list" where
  "shortTermTrend tf prices acc =
     (case acc of (score, rs) \<Rightarrow>
        (case changePercent24h prices of
           None \<Rightarrow> (score, rs)
         | Some c \<Rightarrow>
             if js_lt c (Fin (- 2)) then
               (score + 2, rs @ [''24h: -'' @ tf (js_abs c) 2 @ ''% (potential buy opportunity)''])
             else if js_gt c (Fin 2) then
               (score - 1, rs @ [''24h: +'' @ tf c 2 @ ''% (consider taking profits)''])
             else
               (score, rs @ [''24h: '' @ (if js_gt c (Fin 0) then ''+'' else '''') @ tf c 2
                               @ ''% (stable)''])))"

text \<open>
  Rule 2, the change between the first and the last retained sample. The indexing
  \<open>history[0]\<close> and \<open>history[history.length - 1]\<close> is guarded by \<open>history.length >= 2\<close>.
\<close>

definition weeklyChange :: "sample list \<Rightarrow> jsnum" where
  "weeklyChange history =
     (let oldest = sprice (history ! 0);
          newest = sprice (history ! (length history - 1))
      in js_mul (js_div (js_sub newest oldest) oldest) (Fin 100))"

definition weeklyTrend :: "toFixed_t \<Rightarrow> sample list \<Rightarrow> int \<times> string list \<Rightarrow> int \<times> string list" where
  "weeklyTrend tf history acc =
     (case acc of (score, rs) \<Rightarrow>
        if length history \<ge> 2 then
          (let w = weeklyChange history in
             if js_lt w (Fin (- 5)) then
               (score + 2, rs @ [''Week trend: -'' @ tf (js_abs w) 2 @ ''% (accumulation zone)''])
             else if js_gt w (Fin 5) then
               (score - 1, rs @ [''Week trend: +'' @ tf w 2 @ ''% (extended rally)''])
             else
               (score, rs @ [''Week trend: '' @ (if js_gt w (Fin 0) then ''+'' else '''') @ tf w 2
                               @ ''% (consolidating)'']))
        else (score, rs))"

text \<open>
  Rule 3, the gold/silver ratio, for silver only and only when \<open>priceCache.gold?.price\<close>
  is truthy. Reading \<open>priceCache.silver.price\<close> of a \<open>null\<close> silver quote would throw, so
  the rule returns either an exception or the new score and reasons.
\<close>

definition goldSilverRatio ::
  "toFixed_t \<Rightarrow> priceCache_t \<Rightarrow> metal \<Rightarrow> int \<times> string list \<Rightarrow> jserror + int \<times> string list" where
  "goldSilverRatio tf pc m acc =
     (case acc of (score, rs) \<Rightarrow>
        if m = Silver \<and> (case gold pc of None \<Rightarrow> False | Some g \<Rightarrow> truthy (price g)) then
          (case gold pc of
             None \<Rightarrow> Inl TypeError
           | Some g \<Rightarrow>
              (case silver pc of
                 None \<Rightarrow> Inl TypeError
               | Some s \<Rightarrow>
                   (let ratio = js_div (price g) (price s) in
                      if js_gt ratio (Fin 85) then
                        Inr (score + 1, rs @ [''Au/Ag ratio: '' @ tf ratio 1
                                                @ '' (silver undervalued historically)''])
                      else if js_lt ratio (Fin 70) then
                        Inr (score - 1, rs @ [''Au/Ag ratio: '' @ tf ratio 1
                                                @ '' (silver relatively expensive)''])
                      else
                        Inr (score, rs @ [''Au/Ag ratio: '' @ tf ratio 1 @ '' (normal range)'']))))
        else Inr (score, rs))"

text \<open>The final mapping from the score to the advice and its confidence.\<close>

definition determineAdvice :: "int \<Rightarrow> recommendation \<times> int" where
  "determineAdvice score =
     (if score \<ge> 2 then (BUY, min 80 (50 + score * 10))
      else if score \<le> - 2 then (SELL, min 80 (50 + \<bar>score\<bar> * 10))
      else (HOLD, 60))"

text \<open>
  The score and the reasons that rules 1 to 4 accumulate, in the order of the source.
\<close>

definition accumulate ::
  "toFixed_t \<Rightarrow> priceCache_t \<Rightarrow> metal \<Rightarrow> quote \<Rightarrow> sample list \<Rightarrow> jserror + int \<times> string list" where
  "accumulate tf pc m prices history =
     (case goldSilverRatio tf pc m (weeklyTrend tf history (shortTermTrend tf prices (0, []))) of
        Inl e \<Rightarrow> Inl e
      | Inr (score, rs) \<Rightarrow>
          Inr (score, rs @ [''Global uncertainty: Precious metals as safe haven'']))"

definition calculateAdvice ::
  "toFixed_t \<Rightarrow> priceCache_t \<Rightarrow> priceHistory_t \<Rightarrow> metal \<Rightarrow> jserror + advice_t" where
  "calculateAdvice tf pc ph m =
     (let history = history_at ph m in
        case cache_at pc m of
          None \<Rightarrow>
            Inr \<lparr>advice = HOLD, confidence = 50, reasons = [''Insufficient data for analysis'']\<rparr>
        | Some prices \<Rightarrow>
            if length history < 2 then
              Inr \<lparr>advice = HOLD, confidence = 50, reasons = [''Insufficient data for analysis'']\<rparr>
            else
              (case accumulate tf pc m prices history of
                 Inl e \<Rightarrow> Inl e
               | Inr (score, rs) \<Rightarrow>
                   (case determineAdvice score of
                      (a, c) \<Rightarrow> Inr \<lparr>advice = a, confidence = c, reasons = rs\<rparr>)))"

section \<open>The caches and the price refresh\<close>

text \<open>
  The values of the fields of a news item, which the server only copies from the news
  answer or sets itself. \<open>JIso t\<close> is the string \<open>new Date().toISOString()\<close> taken at the
  instant \<open>t\<close>.
\<close>

datatype jsval = JUndefined | JNull | JNum jsnum | JStr string | JIso int | JOther

record newsItem =
  title :: jsval
  description :: jsval
  url :: jsval
  source :: jsval
  publishedAt :: jsval

record newsCache_t =
  ngold :: "newsItem list"
  nsilver :: "newsItem list"
  nlastUpdate :: "int option"

text \<open>
  A value as \<open>JSON.parse\<close> gives it. An object is given by its own properties, which
  \<open>map_of\<close> looks up. The server does not validate what the market-data call answers
  with, so the coins and their fields are values of this type.
\<close>

datatype json =
  VNull | VBool bool | VNum jsnum | VStr string | VArr "json list" | VObj "(string \<times> json) list"

text \<open>
  An entry of \<open>cryptoCache.top10\<close> and a value of the object \<open>cryptoCache.prices\<close>. A field
  that copies a property of the coin holds the value of the property, or \<open>None\<close> for
  \<open>undefined\<close> when the coin has no such property.
\<close>

record cryptoQuote =
  q_id :: "json option"
  q_symbol :: string
  q_name :: "json option"
  q_price :: "json option"
  q_change24h :: "json option"
  q_changePercent24h :: "json option"
  q_marketCap :: "json option"
  q_image :: "json option"

record cryptoPrice =
  e_price :: "json option"
  e_symbol :: string
  e_name :: "json option"
  e_change24h :: "json option"
  e_changePercent24h :: "json option"
  e_image :: "json option"

text \<open>
  \<open>cryptoCache.prices\<close> is an object used as a dictionary from property key to price entry.
  It is given by its own properties (the order in which they are enumerated is not
  modelled) and by its prototype: \<open>None\<close> for \<open>Object.prototype\<close>, which the object literal
  \<open>{}\<close> starts with. Assigning to the key \<open>__proto__\<close> runs the setter that
  \<open>Object.prototype\<close> has for it and makes the assigned entry the prototype; assigning to
  any other key creates or replaces an own property.
\<close>

record prices_obj =
  p_own :: "string \<rightharpoonup> cryptoPrice"
  p_proto :: "cryptoPrice option"

definition empty_obj :: prices_obj where
  "empty_obj = \<lparr>p_own = Map.empty, p_proto = None\<rparr>"

definition obj_set :: "prices_obj \<Rightarrow> string \<Rightarrow> cryptoPrice \<Rightarrow> prices_obj" where
  "obj_set obj k v =
     (if k = ''__proto__'' then obj\<lparr>p_proto := Some v\<rparr>
      else obj\<lparr>p_own := (p_own obj)(k \<mapsto> v)\<rparr>)"

record cryptoCache_t =
  top10 :: "cryptoQuote list"
  cprices :: prices_obj
  clastUpdate :: "int option"

text \<open>The four module-level variables of the server.\<close>

record server =
  priceCache :: priceCache_t
  newsCache :: newsCache_t
  priceHistory :: priceHistory_t
  cryptoCache :: cryptoCache_t

text \<open>
  What \<open>fetchGoldApiPrices\<close> and \<open>fetchFreePrices\<close> return: an object with a gold and a
  silver quote. The first may return \<open>null\<close> instead; the second returns an object on each of
  its paths. Their network calls and random numbers are outside the model, so the two
  results are inputs of \<open>fetchPrices\<close>, together with the two clock readings it takes:
  \<open>Date.now()\<close> for the samples and \<open>new Date()\<close> for \<open>lastUpdate\<close>.
\<close>

record prices_t =
  pgold :: quote
  psilver :: quote

record price_fetch =
  goldApi :: "prices_t option"
  freeApi :: prices_t
  now :: int
  stamp :: int

definition week_ms :: int where
  "week_ms = 7 * 24 * 60 * 60 * 1000"

definition fetchPrices :: "price_fetch \<Rightarrow> server \<Rightarrow> server" where
  "fetchPrices env st =
     (let prices = (case goldApi env of None \<Rightarrow> Some (freeApi env) | Some p \<Rightarrow> Some p) in
        case prices of
          None \<Rightarrow> st
        | Some p \<Rightarrow>
            (let g1 = hgold (priceHistory st) @ [\<lparr>sprice = price (pgold p), timestamp = now env\<rparr>];
                 s1 = hsilver (priceHistory st) @ [\<lparr>sprice = price (psilver p), timestamp = now env\<rparr>];
                 weekAgo = now env - week_ms
             in st\<lparr>priceHistory :=
                      \<lparr>hgold = filter (\<lambda>p. timestamp p > weekAgo) g1,
                       hsilver = filter (\<lambda>p. timestamp p > weekAgo) s1\<rparr>,
                    priceCache :=
                      \<lparr>gold = Some (pgold p), silver = Some (psilver p),
                       lastUpdate = Some (stamp env)\<rparr>\<rparr>))"

text \<open>A run of price refreshes, one after the other, as the timer and the handlers call them.\<close>

definition fetchPrices_run :: "price_fetch list \<Rightarrow> server \<Rightarrow> server" where
  "fetchPrices_run envs st = foldl (\<lambda>s env. fetchPrices env s) st envs"

text \<open>The prices that \<open>fetchPrices\<close> settles on: the primary answer, else the fallback.\<close>

definition chosen :: "price_fetch \<Rightarrow> prices_t" where
  "chosen env = (case goldApi env of None \<Rightarrow> freeApi env | Some p \<Rightarrow> p)"

text \<open>
  The invariant of a history under refreshes whose clock readings do not decrease: it is
  ascending in time and nothing in it is later than the last reading \<open>t\<close>.
\<close>

definition hist_ok :: "int \<Rightarrow> sample list \<Rightarrow> bool" where
  "hist_ok t h = (sorted (map timestamp h) \<and> list_all (\<lambda>s. timestamp s \<le> t) h)"

definition server_ok :: "int \<Rightarrow> server \<Rightarrow> bool" where
  "server_ok t st = (hist_ok t (hgold (priceHistory st)) \<and> hist_ok t (hsilver (priceHistory st)))"

section \<open>The crypto refresh\<close>

text \<open>
  The body of the answer: \<open>res.json()\<close> rejects, or it yields a JSON value.
\<close>

datatype coins_body = BodyInvalid | BodyJson json

text \<open>The outcome of \<open>fetch\<close>: it rejects, or it gives a response with its \<open>ok\<close> flag.\<close>

datatype crypto_result = FetchRejected | FetchResponse bool coins_body

record crypto_fetch =
  cresult :: crypto_result
  cstamp :: int

text \<open>
  Two built-ins of the language that the refresh calls: the conversion of a number to a
  string and \<open>String.prototype.toUpperCase\<close>. They are not code of the server; the
  refresh takes them as a parameter.
\<close>

record builtins =
  numberToString :: "jsnum \<Rightarrow> string"
  toUpperCase :: "string \<Rightarrow> string"

text \<open>
  Reading properties of a parsed value. On \<open>null\<close> every read throws (\<open>None\<close>). On an
  object a read gives the own property of that name. The names the refresh reads
  (\<open>id\<close>, \<open>symbol\<close>, \<open>name\<close>, \<open>current_price\<close>, \<open>price_change_24h\<close>,
  \<open>price_change_percentage_24h\<close>, \<open>market_cap\<close>, \<open>image\<close>) are inherited by no parsed
  value, so on an object without the property and on a boolean, a number, a string or
  an array the read gives \<open>undefined\<close>.
\<close>

fun props :: "json \<Rightarrow> (string \<Rightarrow> json option) option" where
  "props VNull = None"
| "props (VObj kvs) = Some (map_of kvs)"
| "props _ = Some (\<lambda>k. None)"

text \<open>
  The conversion of a parsed value to a string. An array joins the strings of its
  elements with commas, \<open>null\<close> elements giving the empty string. An object has the string
  \<open>[object Object]\<close> from \<open>Object.prototype.toString\<close>, unless it has an own property
  \<open>toString\<close>: that is data and cannot be called, \<open>valueOf\<close> gives no primitive either,
  and the conversion throws.
\<close>

fun toStringJ :: "(jsnum \<Rightarrow> string) \<Rightarrow> json \<Rightarrow> jserror + string"
  and joinJ :: "(jsnum \<Rightarrow> string) \<Rightarrow> json list \<Rightarrow> jserror + string" where
  "toStringJ ns VNull = Inr ''null''"
| "toStringJ ns (VBool b) = Inr (if b then ''true'' else ''false'')"
| "toStringJ ns (VNum n) = Inr (ns n)"
| "toStringJ ns (VStr s) = Inr s"
| "toStringJ ns (VArr xs) = joinJ ns xs"
| "toStringJ ns (VObj kvs) =
     (case map_of kvs ''toString'' of
        Some v \<Rightarrow> Inl TypeError
      | None \<Rightarrow> Inr ''[object Object]'')"
| "joinJ ns [] = Inr []"
| "joinJ ns (x # xs) =
     (case (if x = VNull then Inr [] else toStringJ ns x) of
        Inl e \<Rightarrow> Inl e
      | Inr s \<Rightarrow>
          (if xs = [] then Inr s
           else (case joinJ ns xs of Inl e \<Rightarrow> Inl e | Inr r \<Rightarrow> Inr (s @ '','' @ r))))"

text \<open>
  The property key that \<open>cryptoCache.prices[coin.id]\<close> converts the id to.
\<close>

definition toPropertyKey :: "(jsnum \<Rightarrow> string) \<Rightarrow> json option \<Rightarrow> jserror + string" where
  "toPropertyKey ns v = (case v of None \<Rightarrow> Inr ''undefined'' | Some j \<Rightarrow> toStringJ ns j)"

text \<open>\<open>coin.symbol.toUpperCase()\<close> throws unless the symbol is a string.\<close>

fun upperSymbol :: "builtins \<Rightarrow> json option \<Rightarrow> jserror + string" where
  "upperSymbol bi (Some (VStr s)) = Inr (toUpperCase bi s)"
| "upperSymbol bi _ = Inl TypeError"

text \<open>The callback of \<open>coins.map\<close>.\<close>

definition toQuote :: "builtins \<Rightarrow> json \<Rightarrow> jserror + cryptoQuote" where
  "toQuote bi coin =
     (case props coin of
        None \<Rightarrow> Inl TypeError
      | Some p \<Rightarrow>
          (case upperSymbol bi (p ''symbol'') of
             Inl e \<Rightarrow> Inl e
           | Inr symb \<Rightarrow>
               Inr \<lparr>q_id = p ''id'', q_symbol = symb, q_name = p ''name'',
                    q_price = p ''current_price'', q_change24h = p ''price_change_24h'',
                    q_changePercent24h = p ''price_change_percentage_24h'',
                    q_marketCap = p ''market_cap'', q_image = p ''image''\<rparr>))"

text \<open>\<open>Array.prototype.map\<close> with a callback that may throw: the first exception ends it.\<close>

fun map_throwing :: "('a \<Rightarrow> jserror + 'b) \<Rightarrow> 'a list \<Rightarrow> jserror + 'b list" where
  "map_throwing f [] = Inr []"
| "map_throwing f (x # xs) =
     (case f x of
        Inl e \<Rightarrow> Inl e
      | Inr y \<Rightarrow> (case map_throwing f xs of Inl e \<Rightarrow> Inl e | Inr ys \<Rightarrow> Inr (y # ys)))"

text \<open>
  \<open>coins.map\<close> and \<open>coins.forEach\<close> are functions only if the parsed body is an array.
\<close>

fun arrayOf :: "json \<Rightarrow> jserror + json list" where
  "arrayOf (VArr xs) = Inr xs"
| "arrayOf _ = Inl TypeError"

text \<open>
  The callback of \<open>coins.forEach\<close>, up to the store: \<open>coin.id\<close> is read, the new entry is
  built, and the id is converted to the property key. Each of the three can throw, all
  with a \<open>TypeError\<close>; the entry is stored only after them.
\<close>

definition toPrice :: "builtins \<Rightarrow> json \<Rightarrow> jserror + string \<times> cryptoPrice" where
  "toPrice bi coin =
     (case props coin of
        None \<Rightarrow> Inl TypeError
      | Some p \<Rightarrow>
          (case upperSymbol bi (p ''symbol'') of
             Inl e \<Rightarrow> Inl e
           | Inr symb \<Rightarrow>
               (case toPropertyKey (numberToString bi) (p ''id'') of
                  Inl e \<Rightarrow> Inl e
                | Inr k \<Rightarrow>
                    Inr (k,
                         \<lparr>e_price = p ''current_price'', e_symbol = symb, e_name = p ''name'',
                          e_change24h = p ''price_change_24h'',
                          e_changePercent24h = p ''price_change_percentage_24h'',
                          e_image = p ''image''\<rparr>))))"

text \<open>
  The \<open>forEach\<close> loop over the coins. It mutates \<open>cryptoCache.prices\<close> entry by entry, so an
  exception in the middle leaves the entries stored so far: the result is the cache as
  it stands together with the exception, if any.
\<close>

fun storePrices :: "builtins \<Rightarrow> json list \<Rightarrow> cryptoCache_t \<Rightarrow> cryptoCache_t \<times> jserror option" where
  "storePrices bi [] cc = (cc, None)"
| "storePrices bi (c # cs) cc =
     (case toPrice bi c of
        Inl e \<Rightarrow> (cc, Some e)
      | Inr (k, v) \<Rightarrow> storePrices bi cs (cc\<lparr>cprices := obj_set (cprices cc) k v\<rparr>))"

text \<open>
  \<open>fetchTopCryptos\<close>: the value it returns (\<open>null\<close> or the cache) and the server afterwards.
  Every exception inside the \<open>try\<close> block is caught and turned into \<open>null\<close>; what had been
  assigned before the exception stays assigned.
\<close>

definition fetchTopCryptos ::
  "builtins \<Rightarrow> crypto_fetch \<Rightarrow> server \<Rightarrow> cryptoCache_t option \<times> server" where
  "fetchTopCryptos bi env st =
     (case cresult env of
        FetchRejected \<Rightarrow> (None, st)
      | FetchResponse ok body \<Rightarrow>
          if \<not> ok then (None, st)
          else
            (case body of
               BodyInvalid \<Rightarrow> (None, st)
             | BodyJson parsed \<Rightarrow>
                 (case arrayOf parsed of
                    Inl e \<Rightarrow> (None, st)
                  | Inr coins \<Rightarrow>
                      (case map_throwing (toQuote bi) coins of
                         Inl e \<Rightarrow> (None, st)
                       | Inr qs \<Rightarrow>
                           (let cc1 = (cryptoCache st)\<lparr>top10 := qs\<rparr>;
                                cc2 = cc1\<lparr>cprices := empty_obj\<rparr>
                            in case storePrices bi coins cc2 of
                                 (cc3, Some e) \<Rightarrow> (None, st\<lparr>cryptoCache := cc3\<rparr>)
                               | (cc3, None) \<Rightarrow>
                                   (let cc4 = cc3\<lparr>clastUpdate := Some (cstamp env)\<rparr>
                                    in (Some cc4, st\<lparr>cryptoCache := cc4\<rparr>)))))))"

text \<open>
  A failure of the adapter before its first assignment: the call rejects, the status is
  not a success, the body cannot be parsed or is not an array, or the callback of
  \<open>coins.map\<close> throws for some coin.
\<close>

definition early_failure :: "builtins \<Rightarrow> crypto_fetch \<Rightarrow> bool" where
  "early_failure bi env =
     (case cresult env of
        FetchRejected \<Rightarrow> True
      | FetchResponse ok body \<Rightarrow>
          (if ok then
             (case body of
                BodyInvalid \<Rightarrow> True
              | BodyJson parsed \<Rightarrow>
                  (case arrayOf parsed of
                     Inl e \<Rightarrow> True
                   | Inr coins \<Rightarrow>
                       list_ex (\<lambda>c. case toQuote bi c of Inl e \<Rightarrow> True | Inr q \<Rightarrow> False) coins))
           else True))"

section \<open>The news refresh\<close>

text \<open>
  An article of the news answer, by the values of \<open>a.title\<close>, \<open>a.description\<close>, \<open>a.url\<close>,
  \<open>a.source?.name\<close> and \<open>a.publishedAt\<close>. An element of the array may be \<open>null\<close>.
\<close>

record article =
  a_title :: jsval
  a_description :: jsval
  a_url :: jsval
  a_source_name :: jsval
  a_publishedAt :: jsval

text \<open>
  Reading one response: \<open>json()\<close> rejects or \<open>data.articles\<close> cannot be mapped
  (\<open>NewsThrows\<close>), or \<open>data.articles || []\<close> is an array.
\<close>

datatype news_body = NewsThrows | NewsArticles "article option list"

record news_response =
  n_ok :: bool
  n_body :: news_body

datatype news_result = NewsRejected | NewsResponses news_response news_response

text \<open>
  \<open>apiKey\<close> says whether \<open>NEWS_API_KEY\<close> is set. All \<open>new Date()\<close> readings of one call are
  taken as the one instant \<open>nstamp\<close>.
\<close>

record news_fetch =
  apiKey :: bool
  nresult :: news_result
  nstamp :: int

definition toNewsItem :: "article option \<Rightarrow> jserror + newsItem" where
  "toNewsItem a =
     (case a of
        None \<Rightarrow> Inl TypeError
      | Some x \<Rightarrow>
          Inr \<lparr>title = a_title x, description = a_description x, url = a_url x,
               source = a_source_name x, publishedAt = a_publishedAt x\<rparr>)"

text \<open>The items of one response that is \<open>ok\<close>; an exception leaves the \<open>try\<close> block.\<close>

definition readNews :: "news_response \<Rightarrow> jserror + newsItem list" where
  "readNews r =
     (case n_body r of
        NewsThrows \<Rightarrow> Inl TypeError
      | NewsArticles as \<Rightarrow> map_throwing toNewsItem as)"

text \<open>
  The \<open>try\<close> block of \<open>fetchNews\<close>: the pair \<open>newsItems.gold\<close>, \<open>newsItems.silver\<close> when
  the block is left, normally or by an exception.
\<close>

definition newsFromApi :: "news_fetch \<Rightarrow> newsItem list \<times> newsItem list" where
  "newsFromApi env =
     (if apiKey env then
        (case nresult env of
           NewsRejected \<Rightarrow> ([], [])
         | NewsResponses goldNews silverNews \<Rightarrow>
             (case (if n_ok goldNews then readNews goldNews else Inr []) of
                Inl e \<Rightarrow> ([], [])
              | Inr g \<Rightarrow>
                  (case (if n_ok silverNews then readNews silverNews else Inr []) of
                     Inl e \<Rightarrow> (g, [])
                   | Inr s \<Rightarrow> (g, s))))
      else ([], []))"

definition headline :: "string \<Rightarrow> string \<Rightarrow> int \<Rightarrow> newsItem" where
  "headline t s i =
     \<lparr>title = JStr t, description = JUndefined, url = JUndefined, source = JStr s,
      publishedAt = JIso i\<rparr>"

definition goldHeadlines :: "int \<Rightarrow> newsItem list" where
  "goldHeadlines i =
     [headline ''Gold prices steady amid economic uncertainty'' ''Reuters'' i,
      headline ''Central banks continue gold buying spree'' ''Bloomberg'' i,
      headline ''Gold ETF inflows hit multi-month high'' ''FT'' i]"

definition silverHeadlines :: "int \<Rightarrow> newsItem list" where
  "silverHeadlines i =
     [headline ''Silver demand rises on industrial applications'' ''Reuters'' i,
      headline ''Silver prices track gold higher'' ''Bloomberg'' i,
      headline ''Solar panel demand boosts silver outlook'' ''FT'' i]"

definition fetchNews :: "news_fetch \<Rightarrow> server \<Rightarrow> server" where
  "fetchNews env st =
     (case newsFromApi env of
        (g, s) \<Rightarrow>
          st\<lparr>newsCache :=
               \<lparr>ngold = (if length g = 0 then goldHeadlines (nstamp env) else g),
                nsilver = (if length s = 0 then silverHeadlines (nstamp env) else s),
                nlastUpdate = Some (nstamp env)\<rparr>\<rparr>)"

section \<open>The dashboard request\<close>

text \<open>
  The age of a cache at the clock reading \<open>t\<close>: \<open>None\<close> stands for \<open>Infinity\<close>, the age of a
  cache whose \<open>lastUpdate\<close> is \<open>null\<close>.
\<close>

definition cacheAge :: "int \<Rightarrow> int option \<Rightarrow> int option" where
  "cacheAge t lu = (case lu of None \<Rightarrow> None | Some u \<Rightarrow> Some (t - u))"

definition olderThan5min :: "int option \<Rightarrow> bool" where
  "olderThan5min age = (case age of None \<Rightarrow> True | Some a \<Rightarrow> a > 5 * 60 * 1000)"

text \<open>
  What one request meets: the two \<open>Date.now()\<close> readings of the handler and what each
  refresh would meet if it runs.
\<close>

record request =
  now1 :: int
  now2 :: int
  pfetch :: price_fetch
  nfetch :: news_fetch
  cfetch :: crypto_fetch

text \<open>The refreshes that have completed and the sending of the response, in order.\<close>

datatype event = EvFetchPrices | EvFetchNews | EvFetchTopCryptos | EvRespond

record response =
  r_prices :: priceCache_t
  r_news :: newsCache_t
  r_advice_gold :: advice_t
  r_advice_silver :: advice_t
  r_history :: priceHistory_t
  r_crypto :: cryptoCache_t

text \<open>\<open>xs.slice(-24)\<close>.\<close>

definition last24 :: "'a list \<Rightarrow> 'a list" where
  "last24 xs = drop (length xs - 24) xs"

text \<open>The body of the response, built from the server as it is when the awaits are over.\<close>

definition buildResponse :: "toFixed_t \<Rightarrow> server \<Rightarrow> jserror + response" where
  "buildResponse tf st =
     (case calculateAdvice tf (priceCache st) (priceHistory st) Gold of
        Inl e \<Rightarrow> Inl e
      | Inr ag \<Rightarrow>
          (case calculateAdvice tf (priceCache st) (priceHistory st) Silver of
             Inl e \<Rightarrow> Inl e
           | Inr asv \<Rightarrow>
               Inr \<lparr>r_prices =
                      \<lparr>gold = gold (priceCache st), silver = silver (priceCache st),
                       lastUpdate = lastUpdate (priceCache st)\<rparr>,
                    r_news =
                      \<lparr>ngold = take 5 (ngold (newsCache st)),
                       nsilver = take 5 (nsilver (newsCache st)),
                       nlastUpdate = nlastUpdate (newsCache st)\<rparr>,
                    r_advice_gold = ag,
                    r_advice_silver = asv,
                    r_history =
                      \<lparr>hgold = last24 (hgold (priceHistory st)),
                       hsilver = last24 (hsilver (priceHistory st))\<rparr>,
                    r_crypto =
                      \<lparr>top10 = top10 (cryptoCache st), cprices = cprices (cryptoCache st),
                       clastUpdate = clastUpdate (cryptoCache st)\<rparr>\<rparr>))"

text \<open>
  The handler of \<open>GET /api/dashboard\<close>. Both ages are computed first, from the caches as
  the request finds them. \<open>Promise.all([fetchPrices(), fetchNews()])\<close> is awaited as a whole;
  the two refreshes write different variables, so they are run one after the other here.
  The result is the response (or the exception that leaves the handler), the server
  afterwards and the events in order.
\<close>

definition dashboard ::
  "toFixed_t \<Rightarrow> builtins \<Rightarrow> request \<Rightarrow> server \<Rightarrow> (jserror + response) \<times> server \<times> event list" where
  "dashboard tf bi rq st =
     (let age = cacheAge (now1 rq) (lastUpdate (priceCache st));
          cryptoAge = cacheAge (now2 rq) (clastUpdate (cryptoCache st));
          (st1, ev1) =
            (if olderThan5min age
             then (fetchNews (nfetch rq) (fetchPrices (pfetch rq) st), [EvFetchPrices, EvFetchNews])
             else (st, []));
          (st2, ev2) =
            (if olderThan5min cryptoAge
             then (snd (fetchTopCryptos bi (cfetch rq) st1), ev1 @ [EvFetchTopCryptos])
             else (st1, ev1))
      in case buildResponse tf st2 of
           Inl e \<Rightarrow> (Inl e, st2, ev2)
         | Inr r \<Rightarrow> (Inr r, st2, ev2 @ [EvRespond]))"

text \<open>The two tests of the handler, on the caches as the request finds them.\<close>

definition priceStale :: "request \<Rightarrow> server \<Rightarrow> bool" where
  "priceStale rq st = olderThan5min (cacheAge (now1 rq) (lastUpdate (priceCache st)))"

definition cryptoStale :: "request \<Rightarrow> server \<Rightarrow> bool" where
  "cryptoStale rq st = olderThan5min (cacheAge (now2 rq) (clastUpdate (cryptoCache st)))"

section \<open>Example inputs and the order of recommendations\<close>

text \<open>
  A decimal formatter to run the examples with: it rounds the exact rational to \<open>d\<close>
  digits (half away from zero) and prints sign, integer part and fraction, as
  \<open>toFixed\<close> does for numbers of ordinary magnitude.
\<close>

fun dec_digits :: "nat \<Rightarrow> string" where
  "dec_digits n =
     (if n < 10 then [char_of (48 + n)]
      else dec_digits (n div 10) @ [char_of (48 + n mod 10)])"

declare dec_digits.simps [simp del]

definition pad_zeros :: "nat \<Rightarrow> string \<Rightarrow> string" where
  "pad_zeros d s = replicate (d - length s) (CHR ''0'') @ s"

fun toFixed_dec :: toFixed_t where
  "toFixed_dec NaN d = ''NaN''"
| "toFixed_dec PInf d = ''Infinity''"
| "toFixed_dec NInf d = ''-Infinity''"
| "toFixed_dec (Fin x) d =
     (let n = nat \<lfloor>\<bar>x\<bar> * 10 ^ d + 1 / 2\<rfloor>
      in (if x < 0 then ''-'' else []) @ dec_digits (n div 10 ^ d)
           @ (if d = 0 then [] else ''.'' @ pad_zeros d (dec_digits (n mod 10 ^ d))))"

definition mk_quote :: "rat \<Rightarrow> rat option \<Rightarrow> quote" where
  "mk_quote p chp =
     \<lparr>price = Fin p, pricePerGram = js_div (Fin p) (Fin (311035 / 10000)),
      change24h = None, changePercent24h = map_option Fin chp, currency = ''EUR''\<rparr>"

text \<open>Gold fell 3 percent in a day and 6 percent over the retained history; no silver quote.\<close>

definition cache_gold_falling :: priceCache_t where
  "cache_gold_falling = \<lparr>gold = Some (mk_quote 2350 (Some (- 3))), silver = None, lastUpdate = Some 600000\<rparr>"

definition history_gold_falling :: priceHistory_t where
  "history_gold_falling =
     \<lparr>hgold = [\<lparr>sprice = Fin 2500, timestamp = 0\<rparr>, \<lparr>sprice = Fin 2400, timestamp = 300000\<rparr>,
               \<lparr>sprice = Fin 2350, timestamp = 600000\<rparr>],
      hsilver = []\<rparr>"

text \<open>Silver rose 3 percent in a day and 6 percent over the history; gold costs 90 times as much.\<close>

definition cache_silver_rising :: priceCache_t where
  "cache_silver_rising =
     \<lparr>gold = Some (mk_quote 2862 (Some (1 / 5))), silver = Some (mk_quote (318 / 10) (Some 3)),
      lastUpdate = Some 300000\<rparr>"

definition history_silver_rising :: priceHistory_t where
  "history_silver_rising =
     \<lparr>hgold = [\<lparr>sprice = Fin 2860, timestamp = 0\<rparr>, \<lparr>sprice = Fin 2862, timestamp = 300000\<rparr>],
      hsilver = [\<lparr>sprice = Fin 30, timestamp = 0\<rparr>, \<lparr>sprice = Fin (318 / 10), timestamp = 300000\<rparr>]\<rparr>"

text \<open>A gold quote whose upstream answer carried \<open>null\<close> for the percentage change.\<close>

definition cache_gold_null_change :: priceCache_t where
  "cache_gold_null_change = \<lparr>gold = Some (mk_quote 2350 None), silver = None, lastUpdate = Some 600000\<rparr>"

text \<open>The state at boot, before the first fetch.\<close>

definition cache_boot :: priceCache_t where
  "cache_boot = \<lparr>gold = None, silver = None, lastUpdate = None\<rparr>"

definition history_boot :: priceHistory_t where
  "history_boot = \<lparr>hgold = [], hsilver = []\<rparr>"

text \<open>The order of the recommendations, \<open>SELL < HOLD < BUY\<close>.\<close>

definition rec_rank :: "recommendation \<Rightarrow> nat" where
  "rec_rank r = (case r of SELL \<Rightarrow> 0 | HOLD \<Rightarrow> 1 | BUY \<Rightarrow> 2)"

text \<open>The whole server at boot.\<close>

definition server_boot :: server where
  "server_boot =
     \<lparr>priceCache = cache_boot,
      newsCache = \<lparr>ngold = [], nsilver = [], nlastUpdate = None\<rparr>,
      priceHistory = history_boot,
      cryptoCache = \<lparr>top10 = [], cprices = empty_obj, clastUpdate = None\<rparr>\<rparr>"

definition free_fetch :: "rat \<Rightarrow> rat \<Rightarrow> int \<Rightarrow> price_fetch" where
  "free_fetch g s t =
     \<lparr>goldApi = None, freeApi = \<lparr>pgold = mk_quote g (Some (1 / 5)), psilver = mk_quote s (Some (1 / 3))\<rparr>,
      now = t, stamp = t\<rparr>"

text \<open>Two gold samples and one silver sample, and a refresh exactly seven days after time 0.\<close>

definition server_week_old :: server where
  "server_week_old =
     server_boot\<lparr>priceHistory :=
       \<lparr>hgold = [\<lparr>sprice = Fin 2400, timestamp = 0\<rparr>, \<lparr>sprice = Fin 2405, timestamp = 1\<rparr>],
        hsilver = [\<lparr>sprice = Fin 30, timestamp = 0\<rparr>]\<rparr>\<rparr>"

definition fetch_week_later :: price_fetch where
  "fetch_week_later = free_fetch 2410 31 604800000"

text \<open>Three refreshes: at boot, five minutes later, and one millisecond more than a week later.\<close>

definition three_fetches :: "price_fetch list" where
  "three_fetches = [free_fetch 2400 30 0, free_fetch 2410 31 300000, free_fetch 2420 32 604800001]"

text \<open>
  Stand-ins for the two built-ins, to run the examples with: they are right on integers
  of ordinary magnitude and on the letters a to z.
\<close>

definition upper_ascii :: "string \<Rightarrow> string" where
  "upper_ascii s =
     map (\<lambda>c. let n = (of_char c :: nat) in if 97 \<le> n \<and> n \<le> 122 then char_of (n - 32) else c) s"

definition builtins_ascii :: builtins where
  "builtins_ascii = \<lparr>numberToString = (\<lambda>n. toFixed_dec n 0), toUpperCase = upper_ascii\<rparr>"

text \<open>
  Two coins as the market-data answer may list them. The id of the second is the object
  \<open>{"toString": 0}\<close>, which cannot be converted to a property key.
\<close>

definition coin_bitcoin :: json where
  "coin_bitcoin =
     VObj [(''id'', VStr ''bitcoin''), (''symbol'', VStr ''btc''), (''name'', VStr ''Bitcoin''),
           (''current_price'', VNum (Fin 60000)), (''price_change_24h'', VNum (Fin (- 500))),
           (''price_change_percentage_24h'', VNum (Fin (- 83 / 100))),
           (''market_cap'', VNum (Fin 1200000000000)),
           (''image'', VStr ''https://example.org/btc.png'')]"

definition coin_bad_id :: json where
  "coin_bad_id =
     VObj [(''id'', VObj [(''toString'', VNum (Fin 0))]), (''symbol'', VStr ''xyz''),
           (''name'', VStr ''Mystery''), (''current_price'', VNum (Fin 1))]"

text \<open>A server whose crypto cache was filled at time 0 with one coin.\<close>

definition quote_ethereum :: cryptoQuote where
  "quote_ethereum =
     \<lparr>q_id = Some (VStr ''ethereum''), q_symbol = ''ETH'', q_name = Some (VStr ''Ethereum''),
      q_price = Some (VNum (Fin 3000)), q_change24h = Some (VNum (Fin 10)),
      q_changePercent24h = Some (VNum (Fin (1 / 3))), q_marketCap = Some (VNum (Fin 360000000000)),
      q_image = None\<rparr>"

definition price_ethereum :: cryptoPrice where
  "price_ethereum =
     \<lparr>e_price = Some (VNum (Fin 3000)), e_symbol = ''ETH'', e_name = Some (VStr ''Ethereum''),
      e_change24h = Some (VNum (Fin 10)), e_changePercent24h = Some (VNum (Fin (1 / 3))),
      e_image = None\<rparr>"

definition server_with_crypto :: server where
  "server_with_crypto =
     server_boot\<lparr>cryptoCache :=
       \<lparr>top10 = [quote_ethereum],
        cprices = \<lparr>p_own = [''ethereum'' \<mapsto> price_ethereum], p_proto = None\<rparr>,
        clastUpdate = Some 0\<rparr>\<rparr>"

text \<open>
  A successful answer at 120 s with the two coins: \<open>coins.map\<close> succeeds on both, the
  loop that stores the prices throws on the second.
\<close>

definition fetch_bad_id :: crypto_fetch where
  "fetch_bad_id =
     \<lparr>cresult = FetchResponse True (BodyJson (VArr [coin_bitcoin, coin_bad_id])),
      cstamp = 120000\<rparr>"

text \<open>
  A server whose prices were refreshed by the timer at 900 s and whose news and crypto
  caches date from boot and from 900 s, and a request at 1000 s for which every upstream
  is down.
\<close>

definition server_news_old :: server where
  "server_news_old =
     \<lparr>priceCache =
        \<lparr>gold = Some (mk_quote 2410 (Some (1 / 5))), silver = Some (mk_quote 31 (Some (1 / 3))),
         lastUpdate = Some 900000\<rparr>,
      newsCache = \<lparr>ngold = goldHeadlines 0, nsilver = silverHeadlines 0, nlastUpdate = Some 0\<rparr>,
      priceHistory =
        \<lparr>hgold = [\<lparr>sprice = Fin 2400, timestamp = 600000\<rparr>, \<lparr>sprice = Fin 2410, timestamp = 900000\<rparr>],
         hsilver = [\<lparr>sprice = Fin 30, timestamp = 600000\<rparr>, \<lparr>sprice = Fin 31, timestamp = 900000\<rparr>]\<rparr>,
      cryptoCache = \<lparr>top10 = [], cprices = empty_obj, clastUpdate = Some 900000\<rparr>\<rparr>"

definition request_1000s :: request where
  "request_1000s =
     \<lparr>now1 = 1000000, now2 = 1000000,
      pfetch = free_fetch 2420 32 1000000,
      nfetch = \<lparr>apiKey = False, nresult = NewsRejected, nstamp = 1000000\<rparr>,
      cfetch = \<lparr>cresult = FetchRejected, cstamp = 1000000\<rparr>\<rparr>"

section \<open>Properties of the advice engine\<close>

subsection \<open>Each rule on its own\<close>

lemma shortTermTrend_score:
  "shortTermTrend tf prices (score, rs) = (score', rs') \<Longrightarrow> score' \<in> {score - 1, score, score + 2}"
  by (auto simp: shortTermTrend_def split: option.splits if_splits)

lemma shortTermTrend_null:
  "changePercent24h prices = None \<Longrightarrow> shortTermTrend tf prices acc = acc"
  by (cases acc) (simp add: shortTermTrend_def)

lemma weeklyTrend_score:
  "weeklyTrend tf history (score, rs) = (score', rs') \<Longrightarrow> score' \<in> {score - 1, score, score + 2}"
  by (auto simp: weeklyTrend_def Let_def split: if_splits)

lemma weeklyTrend_reasons:
  "weeklyTrend tf history (score, rs) = (score', rs') \<Longrightarrow>
     set rs' \<subseteq> set rs \<union> {r. prefix ''Week trend: '' r}"
  by (auto simp: weeklyTrend_def Let_def split: if_splits)

lemma goldSilverRatio_score:
  "goldSilverRatio tf pc m (score, rs) = Inr (score', rs') \<Longrightarrow> score' \<in> {score - 1, score, score + 1}"
  by (auto simp: goldSilverRatio_def Let_def split: option.splits if_splits)

lemma goldSilverRatio_reasons:
  "goldSilverRatio tf pc m (score, rs) = Inr (score', rs') \<Longrightarrow>
     set rs' \<subseteq> set rs \<union> {r. prefix ''Au/Ag ratio: '' r}"
  by (auto simp: goldSilverRatio_def Let_def split: option.splits if_splits)

text \<open>
  The ratio rule reads \<open>priceCache.silver\<close> only when asked about silver, and then the
  guard at the head of \<open>calculateAdvice\<close> has found that quote: the rule never throws.
\<close>

lemma goldSilverRatio_total:
  "cache_at pc m \<noteq> None \<Longrightarrow> \<exists>r. goldSilverRatio tf pc m acc = Inr r"
  by (cases m; cases acc) (auto simp: goldSilverRatio_def Let_def split: option.splits)

lemma accumulate_total:
  "cache_at pc m \<noteq> None \<Longrightarrow> \<exists>score rs. accumulate tf pc m prices history = Inr (score, rs)"
  using goldSilverRatio_total[of pc m tf "weeklyTrend tf history (shortTermTrend tf prices (0, []))"]
  by (auto simp: accumulate_def split: sum.splits prod.splits)

lemma calculateAdvice_returns: "\<exists>a. calculateAdvice tf pc ph m = Inr a"
proof (cases "cache_at pc m")
  case None
  then show ?thesis by (simp add: calculateAdvice_def)
next
  case (Some q)
  then have "cache_at pc m \<noteq> None" by simp
  from accumulate_total[OF this, of tf q "history_at ph m"]
  obtain score rs where "accumulate tf pc m q (history_at ph m) = Inr (score, rs)" by blast
  with Some show ?thesis
    by (simp add: calculateAdvice_def Let_def split: prod.splits)
qed

lemma accumulate_score:
  assumes "accumulate tf pc m prices history = Inr (score, rs)"
  shows "- 3 \<le> score \<and> score \<le> 5"
proof -
  obtain s1 r1 where a: "shortTermTrend tf prices (0, []) = (s1, r1)"
    by (cases "shortTermTrend tf prices (0, [])")
  obtain s2 r2 where b: "weeklyTrend tf history (s1, r1) = (s2, r2)"
    by (cases "weeklyTrend tf history (s1, r1)")
  from assms a b obtain r3 where c: "goldSilverRatio tf pc m (s2, r2) = Inr (score, r3)"
    by (auto simp: accumulate_def split: sum.splits prod.splits)
  from shortTermTrend_score[OF a] weeklyTrend_score[OF b] goldSilverRatio_score[OF c]
  show ?thesis by auto
qed

lemma not_24h_prefix:
  "prefix ''Week trend: '' r \<or> prefix ''Au/Ag ratio: '' r
     \<or> r = ''Global uncertainty: Precious metals as safe haven''
   \<Longrightarrow> \<not> prefix ''24h: '' r"
  by (auto simp: prefix_def)

lemma js_div_Fin_truthy: "js_div a b = Fin r \<Longrightarrow> r \<noteq> 0 \<Longrightarrow> truthy a"
  by (cases a; cases b) (auto split: if_splits)

subsection \<open>The degenerate case\<close>

text \<open>
  C1. For gold and for silver: when the price cache holds no quote for the instrument, or
  the instrument's history holds fewer than two samples, \<open>calculateAdvice\<close> returns exactly
  HOLD with confidence 50 and the single reason "Insufficient data for analysis".
\<close>

theorem calculateAdvice_insufficient:
  assumes "cache_at pc m = None \<or> length (history_at ph m) < 2"
  shows "calculateAdvice tf pc ph m =
           Inr \<lparr>advice = HOLD, confidence = 50, reasons = [''Insufficient data for analysis'']\<rparr>"
  using assms by (auto simp: calculateAdvice_def Let_def split: option.splits)

theorem calculateAdvice_insufficient_witness:
  "calculateAdvice toFixed_dec cache_boot history_boot Silver =
     Inr \<lparr>advice = HOLD, confidence = 50, reasons = [''Insufficient data for analysis'']\<rparr>"
proof -
  have "cache_at cache_boot Silver = None \<or> length (history_at history_boot Silver) < 2"
    by (simp add: cache_boot_def)
  then show ?thesis by (rule calculateAdvice_insufficient)
qed

subsection \<open>From the score to the advice\<close>

text \<open>
  C2. In the non-degenerate case (a quote is cached and the history holds at least two
  samples) the rules accumulate an integer score without throwing, and the result is
  BUY with confidence \<open>min(80, 50 + score*10)\<close> if \<open>score >= 2\<close>, SELL with confidence
  \<open>min(80, 50 + |score|*10)\<close> if \<open>score <= -2\<close>, and HOLD with confidence 60 otherwise.
\<close>

theorem calculateAdvice_final_mapping:
  assumes "cache_at pc m = Some prices" and "2 \<le> length (history_at ph m)"
  shows "\<exists>score rs. accumulate tf pc m prices (history_at ph m) = Inr (score, rs) \<and>
           calculateAdvice tf pc ph m =
             Inr \<lparr>advice = (if score \<ge> 2 then BUY else if score \<le> - 2 then SELL else HOLD),
                  confidence = (if score \<ge> 2 then min 80 (50 + score * 10)
                                else if score \<le> - 2 then min 80 (50 + \<bar>score\<bar> * 10) else 60),
                  reasons = rs\<rparr>"
proof -
  from assms(1) have "cache_at pc m \<noteq> None" by simp
  from accumulate_total[OF this, of tf prices "history_at ph m"]
  obtain score rs where acc: "accumulate tf pc m prices (history_at ph m) = Inr (score, rs)"
    by blast
  have "calculateAdvice tf pc ph m =
             Inr \<lparr>advice = (if score \<ge> 2 then BUY else if score \<le> - 2 then SELL else HOLD),
                  confidence = (if score \<ge> 2 then min 80 (50 + score * 10)
                                else if score \<le> - 2 then min 80 (50 + \<bar>score\<bar> * 10) else 60),
                  reasons = rs\<rparr>"
    using assms acc by (simp add: calculateAdvice_def Let_def determineAdvice_def)
  with acc show ?thesis by blast
qed

theorem calculateAdvice_final_mapping_witness:
  "(\<exists>score rs.
      accumulate toFixed_dec cache_gold_falling Gold (mk_quote 2350 (Some (- 3)))
        (history_at history_gold_falling Gold) = Inr (score, rs) \<and>
      calculateAdvice toFixed_dec cache_gold_falling history_gold_falling Gold =
        Inr \<lparr>advice = (if score \<ge> 2 then BUY else if score \<le> - 2 then SELL else HOLD),
             confidence = (if score \<ge> 2 then min 80 (50 + score * 10)
                           else if score \<le> - 2 then min 80 (50 + \<bar>score\<bar> * 10) else 60),
             reasons = rs\<rparr>) \<and>
   calculateAdvice toFixed_dec cache_gold_falling history_gold_falling Gold =
     Inr \<lparr>advice = BUY, confidence = 80,
          reasons = [''24h: -3.00% (potential buy opportunity)'',
                     ''Week trend: -6.00% (accumulation zone)'',
                     ''Global uncertainty: Precious metals as safe haven'']\<rparr>"
proof -
  have h1: "cache_at cache_gold_falling Gold = Some (mk_quote 2350 (Some (- 3)))"
    by (simp add: cache_gold_falling_def)
  have h2: "2 \<le> length (history_at history_gold_falling Gold)"
    by (simp add: history_gold_falling_def)
  have e: "calculateAdvice toFixed_dec cache_gold_falling history_gold_falling Gold =
     Inr \<lparr>advice = BUY, confidence = 80,
          reasons = [''24h: -3.00% (potential buy opportunity)'',
                     ''Week trend: -6.00% (accumulation zone)'',
                     ''Global uncertainty: Precious metals as safe haven'']\<rparr>"
    by code_simp
  from calculateAdvice_final_mapping[OF h1 h2, of toFixed_dec] e show ?thesis by blast
qed

text \<open>
  C7. The mapping from the score to the recommendation is monotone in the order
  \<open>SELL < HOLD < BUY\<close>: a larger score never gives a smaller recommendation.
\<close>

theorem determineAdvice_monotone:
  "s1 \<le> s2 \<Longrightarrow> rec_rank (fst (determineAdvice s1)) \<le> rec_rank (fst (determineAdvice s2))"
  by (auto simp: determineAdvice_def rec_rank_def)

theorem determineAdvice_monotone_witness:
  "(- 2 :: int) \<le> 3 \<and> rec_rank (fst (determineAdvice (- 2))) \<le> rec_rank (fst (determineAdvice 3))
   \<and> fst (determineAdvice (- 2)) = SELL \<and> fst (determineAdvice 3) = BUY"
proof -
  have h: "(- 2 :: int) \<le> 3" by simp
  from determineAdvice_monotone[OF h] h show ?thesis by (simp add: determineAdvice_def)
qed

text \<open>
  C10. For every price cache and price history \<open>calculateAdvice\<close> returns, and the
  confidence it returns is one of 50, 60, 70 and 80; it is 50 only in the degenerate case
  of a missing quote or a history of fewer than two samples.
\<close>

theorem calculateAdvice_confidence:
  "\<exists>a. calculateAdvice tf pc ph m = Inr a \<and> confidence a \<in> {50, 60, 70, 80} \<and>
        (confidence a = 50 \<longrightarrow> cache_at pc m = None \<or> length (history_at ph m) < 2)"
proof (cases "cache_at pc m = None \<or> length (history_at ph m) < 2")
  case True
  then show ?thesis by (auto simp: calculateAdvice_def Let_def split: option.splits)
next
  case False
  then obtain prices where p: "cache_at pc m = Some prices" and l: "2 \<le> length (history_at ph m)"
    by auto
  from p have "cache_at pc m \<noteq> None" by simp
  from accumulate_total[OF this, of tf prices "history_at ph m"]
  obtain score rs where acc: "accumulate tf pc m prices (history_at ph m) = Inr (score, rs)"
    by blast
  from accumulate_score[OF acc] have "score \<in> {- 3, - 2, - 1, 0, 1, 2, 3, 4, 5}" by auto
  then show ?thesis using p l acc False
    by (auto simp: calculateAdvice_def Let_def determineAdvice_def)
qed

theorem calculateAdvice_confidence_witness:
  "\<exists>a. calculateAdvice toFixed_dec cache_boot history_boot Gold = Inr a \<and> confidence a = 50 \<and>
        (cache_at cache_boot Gold = None \<or> length (history_at history_boot Gold) < 2)"
proof -
  have e: "calculateAdvice toFixed_dec cache_boot history_boot Gold =
      Inr \<lparr>advice = HOLD, confidence = 50, reasons = [''Insufficient data for analysis'']\<rparr>"
    by (simp add: calculateAdvice_def cache_boot_def history_boot_def)
  from calculateAdvice_confidence[of toFixed_dec cache_boot history_boot Gold] e
  show ?thesis by auto
qed

subsection \<open>Single rules\<close>

text \<open>
  C9. With a cached quote whose \<open>changePercent24h\<close> is \<open>null\<close> and a history of at least two
  samples, the 24 hour rule is skipped: it leaves score and reasons as they are, and the
  result of \<open>calculateAdvice\<close> is what the weekly rule, the ratio rule and the fixed
  sentiment line give from score 0 and no reasons; no reason line starts with "24h: ".
\<close>

theorem calculateAdvice_null_change:
  assumes "cache_at pc m = Some prices" and "2 \<le> length (history_at ph m)"
      and "changePercent24h prices = None"
  shows "shortTermTrend tf prices (score0, rs0) = (score0, rs0) \<and>
         calculateAdvice tf pc ph m =
           (case goldSilverRatio tf pc m (weeklyTrend tf (history_at ph m) (0, [])) of
              Inl e \<Rightarrow> Inl e
            | Inr (score, rs) \<Rightarrow>
                Inr \<lparr>advice = fst (determineAdvice score), confidence = snd (determineAdvice score),
                     reasons = rs @ [''Global uncertainty: Precious metals as safe haven'']\<rparr>) \<and>
         (\<exists>a. calculateAdvice tf pc ph m = Inr a \<and>
              (\<forall>r \<in> set (reasons a). \<not> prefix ''24h: '' r))"
proof -
  let ?h = "history_at ph m"
  have s: "shortTermTrend tf prices (score0, rs0) = (score0, rs0)" for score0 rs0
    using assms(3) by (rule shortTermTrend_null)
  obtain s2 r2 where w: "weeklyTrend tf ?h (0, []) = (s2, r2)"
    by (cases "weeklyTrend tf ?h (0, [])")
  from assms(1) have "cache_at pc m \<noteq> None" by simp
  from goldSilverRatio_total[OF this, of tf "(s2, r2)"]
  obtain s3 r3 where g: "goldSilverRatio tf pc m (s2, r2) = Inr (s3, r3)" by auto
  have eq: "calculateAdvice tf pc ph m =
      Inr \<lparr>advice = fst (determineAdvice s3), confidence = snd (determineAdvice s3),
           reasons = r3 @ [''Global uncertainty: Precious metals as safe haven'']\<rparr>"
    using assms(1,2) w g s[of 0 "[]"]
    by (simp add: calculateAdvice_def Let_def accumulate_def split: prod.splits)
  have "set r2 \<subseteq> {r. prefix ''Week trend: '' r}" using weeklyTrend_reasons[OF w] by simp
  with goldSilverRatio_reasons[OF g]
  have "set r3 \<subseteq> {r. prefix ''Week trend: '' r} \<union> {r. prefix ''Au/Ag ratio: '' r}" by blast
  then have "\<forall>r \<in> set (r3 @ [''Global uncertainty: Precious metals as safe haven'']).
               \<not> prefix ''24h: '' r"
    using not_24h_prefix by auto
  with eq s w g show ?thesis by simp
qed

theorem calculateAdvice_null_change_witness:
  "shortTermTrend toFixed_dec (mk_quote 2350 None) (0, []) = (0, []) \<and>
   calculateAdvice toFixed_dec cache_gold_null_change history_gold_falling Gold =
     Inr \<lparr>advice = BUY, confidence = 70,
          reasons = [''Week trend: -6.00% (accumulation zone)'',
                     ''Global uncertainty: Precious metals as safe haven'']\<rparr> \<and>
   (\<exists>a. calculateAdvice toFixed_dec cache_gold_null_change history_gold_falling Gold = Inr a \<and>
        (\<forall>r \<in> set (reasons a). \<not> prefix ''24h: '' r))"
proof -
  have h1: "cache_at cache_gold_null_change Gold = Some (mk_quote 2350 None)"
    by (simp add: cache_gold_null_change_def)
  have h2: "2 \<le> length (history_at history_gold_falling Gold)"
    by (simp add: history_gold_falling_def)
  have h3: "changePercent24h (mk_quote 2350 None) = None"
    by (simp add: mk_quote_def)
  have e: "calculateAdvice toFixed_dec cache_gold_null_change history_gold_falling Gold =
     Inr \<lparr>advice = BUY, confidence = 70,
          reasons = [''Week trend: -6.00% (accumulation zone)'',
                     ''Global uncertainty: Precious metals as safe haven'']\<rparr>"
    by code_simp
  note t = calculateAdvice_null_change[OF h1 h2 h3, of toFixed_dec 0 "[]"]
  from t have a: "shortTermTrend toFixed_dec (mk_quote 2350 None) (0, []) = (0, [])"
    by (rule conjunct1)
  from t have c: "\<exists>a. calculateAdvice toFixed_dec cache_gold_null_change history_gold_falling Gold = Inr a \<and>
        (\<forall>r \<in> set (reasons a). \<not> prefix ''24h: '' r)"
    by (elim conjE)
  from a e c show ?thesis by (intro conjI)
qed

text \<open>
  C6. Silver, with a cached quote whose \<open>changePercent24h\<close> is 3, a history of at least two
  samples whose weekly change is 6, and a gold quote that makes the gold/silver ratio 90:
  the score is \<open>-1 - 1 + 1 = -1\<close> and the advice is HOLD with confidence 60.
\<close>

theorem calculateAdvice_scenario2:
  assumes "silver pc = Some s" and "changePercent24h s = Some (Fin 3)"
      and "2 \<le> length (hsilver ph)" and "weeklyChange (hsilver ph) = Fin 6"
      and "gold pc = Some g" and "js_div (price g) (price s) = Fin 90"
  shows "accumulate tf pc Silver s (hsilver ph) =
           Inr (- 1, [''24h: +'' @ tf (Fin 3) 2 @ ''% (consider taking profits)'',
                      ''Week trend: +'' @ tf (Fin 6) 2 @ ''% (extended rally)'',
                      ''Au/Ag ratio: '' @ tf (Fin 90) 1 @ '' (silver undervalued historically)'',
                      ''Global uncertainty: Precious metals as safe haven'']) \<and>
         calculateAdvice tf pc ph Silver =
           Inr \<lparr>advice = HOLD, confidence = 60,
                reasons = [''24h: +'' @ tf (Fin 3) 2 @ ''% (consider taking profits)'',
                      ''Week trend: +'' @ tf (Fin 6) 2 @ ''% (extended rally)'',
                      ''Au/Ag ratio: '' @ tf (Fin 90) 1 @ '' (silver undervalued historically)'',
                      ''Global uncertainty: Precious metals as safe haven'']\<rparr>"
proof -
  have t: "truthy (price g)" using js_div_Fin_truthy[OF assms(6)] by simp
  have a: "shortTermTrend tf s (0, []) =
             (- 1, [''24h: +'' @ tf (Fin 3) 2 @ ''% (consider taking profits)''])"
    using assms(2) by (simp add: shortTermTrend_def js_gt_def)
  have b: "weeklyTrend tf (hsilver ph) (- 1, rs) =
             (- 2, rs @ [''Week trend: +'' @ tf (Fin 6) 2 @ ''% (extended rally)''])" for rs
    using assms(3,4) by (simp add: weeklyTrend_def js_gt_def)
  have c: "goldSilverRatio tf pc Silver (- 2, rs) =
      Inr (- 1, rs @ [''Au/Ag ratio: '' @ tf (Fin 90) 1 @ '' (silver undervalued historically)''])"
    for rs
    using assms(1,5,6) t by (simp add: goldSilverRatio_def js_gt_def)
  have acc: "accumulate tf pc Silver s (hsilver ph) =
           Inr (- 1, [''24h: +'' @ tf (Fin 3) 2 @ ''% (consider taking profits)'',
                      ''Week trend: +'' @ tf (Fin 6) 2 @ ''% (extended rally)'',
                      ''Au/Ag ratio: '' @ tf (Fin 90) 1 @ '' (silver undervalued historically)'',
                      ''Global uncertainty: Precious metals as safe haven''])"
    by (simp add: accumulate_def a b c)
  show ?thesis
    using assms(1,3) by (simp add: acc calculateAdvice_def determineAdvice_def)
qed

theorem calculateAdvice_scenario2_witness:
  "accumulate toFixed_dec cache_silver_rising Silver (mk_quote (318 / 10) (Some 3))
       (hsilver history_silver_rising) =
     Inr (- 1, [''24h: +3.00% (consider taking profits)'',
                ''Week trend: +6.00% (extended rally)'',
                ''Au/Ag ratio: 90.0 (silver undervalued historically)'',
                ''Global uncertainty: Precious metals as safe haven'']) \<and>
   calculateAdvice toFixed_dec cache_silver_rising history_silver_rising Silver =
     Inr \<lparr>advice = HOLD, confidence = 60,
          reasons = [''24h: +3.00% (consider taking profits)'',
                     ''Week trend: +6.00% (extended rally)'',
                     ''Au/Ag ratio: 90.0 (silver undervalued historically)'',
                     ''Global uncertainty: Precious metals as safe haven'']\<rparr>"
proof -
  have h1: "silver cache_silver_rising = Some (mk_quote (318 / 10) (Some 3))"
    by (simp add: cache_silver_rising_def)
  have h2: "changePercent24h (mk_quote (318 / 10) (Some 3)) = Some (Fin 3)"
    by (simp add: mk_quote_def)
  have h3: "2 \<le> length (hsilver history_silver_rising)"
    by (simp add: history_silver_rising_def)
  have h4: "weeklyChange (hsilver history_silver_rising) = Fin 6"
    by (simp add: history_silver_rising_def weeklyChange_def)
  have h5: "gold cache_silver_rising = Some (mk_quote 2862 (Some (1 / 5)))"
    by (simp add: cache_silver_rising_def)
  have h6: "js_div (price (mk_quote 2862 (Some (1 / 5)))) (price (mk_quote (318 / 10) (Some 3))) = Fin 90"
    by (simp add: mk_quote_def)
  have f: "toFixed_dec (Fin 3) 2 = ''3.00''" "toFixed_dec (Fin 6) 2 = ''6.00''"
          "toFixed_dec (Fin 90) 1 = ''90.0''"
    by code_simp+
  from calculateAdvice_scenario2[OF h1 h2 h3 h4 h5 h6, of toFixed_dec] f
  show ?thesis by simp
qed

section \<open>Properties of the history store\<close>

lemma week_ms_pos: "0 < week_ms"
  by (simp add: week_ms_def)

lemma fetchPrices_history:
  "hgold (priceHistory (fetchPrices env st)) =
     filter (\<lambda>p. timestamp p > now env - week_ms)
       (hgold (priceHistory st) @ [\<lparr>sprice = price (pgold (chosen env)), timestamp = now env\<rparr>])"
  "hsilver (priceHistory (fetchPrices env st)) =
     filter (\<lambda>p. timestamp p > now env - week_ms)
       (hsilver (priceHistory st) @ [\<lparr>sprice = price (psilver (chosen env)), timestamp = now env\<rparr>])"
  by (auto simp: fetchPrices_def chosen_def Let_def split: option.splits)

text \<open>On an ascending list, keeping what is later than a bound drops a prefix.\<close>

lemma filter_sorted_drop:
  "sorted (map f xs) \<Longrightarrow> \<exists>k. filter (\<lambda>x. (c::int) < f x) xs = drop k xs"
proof (induction xs)
  case Nil
  then show ?case by simp
next
  case (Cons x xs)
  show ?case
  proof (cases "c < f x")
    case True
    with Cons.prems have "\<forall>y \<in> set (x # xs). c < f y" by auto
    then have "filter (\<lambda>x. c < f x) (x # xs) = drop 0 (x # xs)" by simp
    then show ?thesis by blast
  next
    case False
    from Cons obtain k where "filter (\<lambda>x. c < f x) xs = drop k xs" by auto
    with False have "filter (\<lambda>x. c < f x) (x # xs) = drop (Suc k) (x # xs)" by simp
    then show ?thesis by blast
  qed
qed

lemma hist_ok_snoc:
  assumes "hist_ok t h" and "t \<le> t'"
  shows "sorted (map timestamp (h @ [\<lparr>sprice = x, timestamp = t'\<rparr>]))"
  using assms by (auto simp: hist_ok_def sorted_append list_all_iff)

lemma hist_ok_step:
  assumes "hist_ok t h" and "t \<le> t'"
  shows "hist_ok t' (filter (\<lambda>p. timestamp p > c) (h @ [\<lparr>sprice = x, timestamp = t'\<rparr>]))"
proof -
  let ?h = "h @ [\<lparr>sprice = x, timestamp = t'\<rparr>]"
  have "sorted (map timestamp (filter (\<lambda>p. timestamp p > c) ?h))"
    using hist_ok_snoc[OF assms] by (metis sorted_filter)
  moreover have "list_all (\<lambda>s. timestamp s \<le> t') (filter (\<lambda>p. timestamp p > c) ?h)"
    using assms by (auto simp: hist_ok_def list_all_iff)
  ultimately show ?thesis by (simp only: hist_ok_def)
qed

lemma hist_suffix:
  assumes "hist_ok t h" and "t \<le> t'"
  shows "suffix (filter (\<lambda>p. timestamp p > c) (h @ [\<lparr>sprice = x, timestamp = t'\<rparr>]))
                (h @ [\<lparr>sprice = x, timestamp = t'\<rparr>])"
proof -
  let ?h = "h @ [\<lparr>sprice = x, timestamp = t'\<rparr>]"
  from filter_sorted_drop[OF hist_ok_snoc[OF assms], of c x]
  obtain k where "filter (\<lambda>p. c < timestamp p) ?h = drop k ?h"
    by blast
  then show ?thesis by (simp only: suffix_drop)
qed

lemma server_ok_step:
  assumes "server_ok t st" and "t \<le> now env"
  shows "server_ok (now env) (fetchPrices env st)"
proof -
  from assms(1) have g: "hist_ok t (hgold (priceHistory st))"
    and s: "hist_ok t (hsilver (priceHistory st))"
    by (simp_all add: server_ok_def)
  show ?thesis
    unfolding server_ok_def fetchPrices_history
    by (intro conjI hist_ok_step[OF g assms(2)] hist_ok_step[OF s assms(2)])
qed

lemma run_snoc: "fetchPrices_run (envs @ [e]) st = fetchPrices e (fetchPrices_run envs st)"
  by (simp add: fetchPrices_run_def)

lemma run_take_Suc:
  "k < length envs \<Longrightarrow>
     fetchPrices_run (take (Suc k) envs) st = fetchPrices (envs ! k) (fetchPrices_run (take k envs) st)"
  by (simp add: take_Suc_conv_app_nth run_snoc)

lemma server_ok_boot: "server_ok t server_boot"
  by (simp add: server_ok_def hist_ok_def server_boot_def history_boot_def)

text \<open>Before the refresh number \<open>k\<close>, nothing in the histories is later than its clock reading.\<close>

lemma run_ok:
  assumes "sorted (map now envs)"
  shows "k < length envs \<Longrightarrow> server_ok (now (envs ! k)) (fetchPrices_run (take k envs) server_boot)"
proof (induction k)
  case 0
  show ?case by (simp add: fetchPrices_run_def server_ok_boot)
next
  case (Suc k)
  then have k: "k < length envs" by simp
  from Suc.IH[OF k]
  have "server_ok (now (envs ! k)) (fetchPrices (envs ! k) (fetchPrices_run (take k envs) server_boot))"
    by (rule server_ok_step) simp
  then have a: "server_ok (now (envs ! k)) (fetchPrices_run (take (Suc k) envs) server_boot)"
    by (simp add: run_take_Suc[OF k])
  have "now (envs ! k) \<le> now (envs ! Suc k)"
    using assms Suc.prems sorted_nth_mono[of "map now envs" k "Suc k"] by simp
  with a show ?case by (auto simp: server_ok_def hist_ok_def list_all_iff)
qed

lemma run_sorted:
  assumes "sorted (map now envs)" and "k \<le> length envs"
  shows "\<exists>t. server_ok t (fetchPrices_run (take k envs) server_boot)"
proof (cases k)
  case 0
  then show ?thesis using server_ok_boot by (auto simp: fetchPrices_run_def)
next
  case (Suc j)
  with assms(2) have j: "j < length envs" by simp
  from run_ok[OF assms(1) j]
  have "server_ok (now (envs ! j)) (fetchPrices (envs ! j) (fetchPrices_run (take j envs) server_boot))"
    by (rule server_ok_step) simp
  then show ?thesis using Suc run_take_Suc[OF j] by auto
qed

text \<open>
  C3, as the code has it. A refresh at time \<open>now\<close> puts the new sample at the tail of each
  history and removes exactly the older samples whose timestamp is at most \<open>now\<close> minus
  seven days. Every retained sample is less than seven days old, and a sample whose
  timestamp is exactly \<open>now\<close> minus seven days is removed.
\<close>

theorem fetchPrices_append_prune:
  "hgold (priceHistory (fetchPrices env st)) =
     filter (\<lambda>s. \<not> timestamp s \<le> now env - week_ms) (hgold (priceHistory st))
       @ [\<lparr>sprice = price (pgold (chosen env)), timestamp = now env\<rparr>] \<and>
   hsilver (priceHistory (fetchPrices env st)) =
     filter (\<lambda>s. \<not> timestamp s \<le> now env - week_ms) (hsilver (priceHistory st))
       @ [\<lparr>sprice = price (psilver (chosen env)), timestamp = now env\<rparr>] \<and>
   (\<forall>s \<in> set (hgold (priceHistory (fetchPrices env st)))
          \<union> set (hsilver (priceHistory (fetchPrices env st))).
       now env - timestamp s < week_ms) \<and>
   (\<forall>s \<in> set (hgold (priceHistory st)) \<union> set (hsilver (priceHistory st)).
       timestamp s = now env - week_ms \<longrightarrow>
         s \<notin> set (hgold (priceHistory (fetchPrices env st))) \<and>
         s \<notin> set (hsilver (priceHistory (fetchPrices env st))))"
  using week_ms_pos
  by (auto simp: fetchPrices_history not_le)

theorem fetchPrices_append_prune_witness:
  "hgold (priceHistory (fetchPrices fetch_week_later server_week_old)) =
     [\<lparr>sprice = Fin 2405, timestamp = 1\<rparr>, \<lparr>sprice = Fin 2410, timestamp = 604800000\<rparr>] \<and>
   hsilver (priceHistory (fetchPrices fetch_week_later server_week_old)) =
     [\<lparr>sprice = Fin 31, timestamp = 604800000\<rparr>] \<and>
   list_all (\<lambda>s. now fetch_week_later - timestamp s < week_ms)
     (hgold (priceHistory (fetchPrices fetch_week_later server_week_old))
        @ hsilver (priceHistory (fetchPrices fetch_week_later server_week_old))) \<and>
   timestamp \<lparr>sprice = Fin 30, timestamp = 0\<rparr> = now fetch_week_later - week_ms \<and>
   \<lparr>sprice = Fin 30, timestamp = 0\<rparr> \<in> set (hsilver (priceHistory server_week_old)) \<and>
   \<lparr>sprice = Fin 30, timestamp = 0\<rparr>
      \<notin> set (hsilver (priceHistory (fetchPrices fetch_week_later server_week_old)))"
proof -
  note t = fetchPrices_append_prune[of fetch_week_later server_week_old]
  have a: "timestamp \<lparr>sprice = Fin 30, timestamp = 0\<rparr> = now fetch_week_later - week_ms"
    by (simp add: fetch_week_later_def free_fetch_def week_ms_def)
  have b: "\<lparr>sprice = Fin 30, timestamp = 0\<rparr> \<in> set (hsilver (priceHistory server_week_old))"
    by (simp add: server_week_old_def)
  have c: "\<lparr>sprice = Fin 30, timestamp = 0\<rparr>
      \<in> set (hgold (priceHistory server_week_old)) \<union> set (hsilver (priceHistory server_week_old))"
    using b by simp
  from t c a have d: "\<lparr>sprice = Fin 30, timestamp = 0\<rparr>
      \<notin> set (hsilver (priceHistory (fetchPrices fetch_week_later server_week_old)))"
    by blast
  have g: "hgold (priceHistory (fetchPrices fetch_week_later server_week_old)) =
     [\<lparr>sprice = Fin 2405, timestamp = 1\<rparr>, \<lparr>sprice = Fin 2410, timestamp = 604800000\<rparr>]"
    by (simp add: fetchPrices_history chosen_def fetch_week_later_def free_fetch_def
        server_week_old_def week_ms_def mk_quote_def)
  have s: "hsilver (priceHistory (fetchPrices fetch_week_later server_week_old)) =
     [\<lparr>sprice = Fin 31, timestamp = 604800000\<rparr>]"
    by (simp add: fetchPrices_history chosen_def fetch_week_later_def free_fetch_def
        server_week_old_def week_ms_def mk_quote_def)
  from t have "\<forall>s \<in> set (hgold (priceHistory (fetchPrices fetch_week_later server_week_old)))
          \<union> set (hsilver (priceHistory (fetchPrices fetch_week_later server_week_old))).
       now fetch_week_later - timestamp s < week_ms"
    by (elim conjE)
  then have q: "list_all (\<lambda>s. now fetch_week_later - timestamp s < week_ms)
     (hgold (priceHistory (fetchPrices fetch_week_later server_week_old))
        @ hsilver (priceHistory (fetchPrices fetch_week_later server_week_old)))"
    by (simp only: list_all_iff set_append)
  from g s q a b d show ?thesis by (intro conjI)
qed

text \<open>
  The specification's wording of C3 keeps a sample whose timestamp is exactly \<open>now\<close> minus
  seven days. The gold sample of time 0 is in the history before a refresh at exactly seven
  days and is gone after it.
\<close>

theorem fetchPrices_boundary_counterexample:
  "timestamp \<lparr>sprice = Fin 2400, timestamp = 0\<rparr> = now fetch_week_later - 7 * 24 * 60 * 60 * 1000 \<and>
   \<lparr>sprice = Fin 2400, timestamp = 0\<rparr> \<in> set (hgold (priceHistory server_week_old)) \<and>
   \<lparr>sprice = Fin 2400, timestamp = 0\<rparr>
      \<notin> set (hgold (priceHistory (fetchPrices fetch_week_later server_week_old)))"
  by (simp add: fetchPrices_def Let_def fetch_week_later_def free_fetch_def
      server_week_old_def server_boot_def week_ms_def mk_quote_def)

text \<open>
  C4. Starting from the empty histories at boot, under refreshes whose clock readings do
  not decrease, the gold and the silver history are ascending in time after every refresh,
  and each refresh leaves a suffix of the old history with the new sample appended: the
  pruning removes a prefix only.
\<close>

theorem history_ascending:
  assumes "sorted (map now envs)"
  shows "(\<forall>k \<le> length envs.
            sorted (map timestamp (hgold (priceHistory (fetchPrices_run (take k envs) server_boot)))) \<and>
            sorted (map timestamp (hsilver (priceHistory (fetchPrices_run (take k envs) server_boot))))) \<and>
         (\<forall>k < length envs.
            suffix (hgold (priceHistory (fetchPrices_run (take (Suc k) envs) server_boot)))
                   (hgold (priceHistory (fetchPrices_run (take k envs) server_boot))
                      @ [\<lparr>sprice = price (pgold (chosen (envs ! k))), timestamp = now (envs ! k)\<rparr>]) \<and>
            suffix (hsilver (priceHistory (fetchPrices_run (take (Suc k) envs) server_boot)))
                   (hsilver (priceHistory (fetchPrices_run (take k envs) server_boot))
                      @ [\<lparr>sprice = price (psilver (chosen (envs ! k))), timestamp = now (envs ! k)\<rparr>]))"
proof (intro conjI allI impI)
  fix k assume k: "k \<le> length envs"
  from run_sorted[OF assms k]
  obtain t where "server_ok t (fetchPrices_run (take k envs) server_boot)" ..
  then show "sorted (map timestamp (hgold (priceHistory (fetchPrices_run (take k envs) server_boot))))"
    and "sorted (map timestamp (hsilver (priceHistory (fetchPrices_run (take k envs) server_boot))))"
    by (simp_all add: server_ok_def hist_ok_def)
next
  fix k assume k: "k < length envs"
  from run_ok[OF assms k]
  have g: "hist_ok (now (envs ! k)) (hgold (priceHistory (fetchPrices_run (take k envs) server_boot)))"
    and s: "hist_ok (now (envs ! k)) (hsilver (priceHistory (fetchPrices_run (take k envs) server_boot)))"
    by (simp_all add: server_ok_def)
  show "suffix (hgold (priceHistory (fetchPrices_run (take (Suc k) envs) server_boot)))
                   (hgold (priceHistory (fetchPrices_run (take k envs) server_boot))
                      @ [\<lparr>sprice = price (pgold (chosen (envs ! k))), timestamp = now (envs ! k)\<rparr>])"
    unfolding run_take_Suc[OF k] fetchPrices_history
    by (rule hist_suffix[OF g]) simp
  show "suffix (hsilver (priceHistory (fetchPrices_run (take (Suc k) envs) server_boot)))
                   (hsilver (priceHistory (fetchPrices_run (take k envs) server_boot))
                      @ [\<lparr>sprice = price (psilver (chosen (envs ! k))), timestamp = now (envs ! k)\<rparr>])"
    unfolding run_take_Suc[OF k] fetchPrices_history
    by (rule hist_suffix[OF s]) simp
qed

theorem history_ascending_witness:
  "sorted (map now three_fetches) \<and>
   sorted (map timestamp (hgold (priceHistory (fetchPrices_run three_fetches server_boot)))) \<and>
   sorted (map timestamp (hsilver (priceHistory (fetchPrices_run three_fetches server_boot)))) \<and>
   hgold (priceHistory (fetchPrices_run three_fetches server_boot)) =
     [\<lparr>sprice = Fin 2410, timestamp = 300000\<rparr>, \<lparr>sprice = Fin 2420, timestamp = 604800001\<rparr>]"
proof -
  have h: "sorted (map now three_fetches)"
    by (simp add: three_fetches_def free_fetch_def)
  have e: "hgold (priceHistory (fetchPrices_run three_fetches server_boot)) =
     [\<lparr>sprice = Fin 2410, timestamp = 300000\<rparr>, \<lparr>sprice = Fin 2420, timestamp = 604800001\<rparr>]"
    by (simp add: fetchPrices_run_def three_fetches_def fetchPrices_history chosen_def
        free_fetch_def server_boot_def history_boot_def week_ms_def mk_quote_def)
  from history_ascending[OF h]
  have "sorted (map timestamp (hgold (priceHistory
            (fetchPrices_run (take (length three_fetches) three_fetches) server_boot)))) \<and>
        sorted (map timestamp (hsilver (priceHistory
            (fetchPrices_run (take (length three_fetches) three_fetches) server_boot))))"
    by blast
  with h e show ?thesis by simp
qed

section \<open>Properties of the crypto refresh\<close>

lemma map_throwing_Inl:
  "(\<exists>e. map_throwing f xs = Inl e) \<longleftrightarrow>
     list_ex (\<lambda>x. case f x of Inl e \<Rightarrow> True | Inr y \<Rightarrow> False) xs"
  by (induction xs) (auto split: sum.splits)

text \<open>
  A failure before the first assignment returns \<open>null\<close> and leaves the server as it was.
\<close>

lemma fetchTopCryptos_early_failure:
  assumes "early_failure bi env"
  shows "fetchTopCryptos bi env st = (None, st)"
proof (cases "cresult env")
  case FetchRejected
  then show ?thesis by (simp add: fetchTopCryptos_def)
next
  case (FetchResponse ok body)
  show ?thesis
  proof (cases "ok \<and> (\<exists>parsed coins. body = BodyJson parsed \<and> arrayOf parsed = Inr coins)")
    case False
    then show ?thesis using FetchResponse
      by (cases body) (auto simp: fetchTopCryptos_def split: sum.splits)
  next
    case True
    then obtain parsed coins where b: "body = BodyJson parsed"
      and a: "arrayOf parsed = Inr coins" and ok: ok
      by blast
    from assms FetchResponse b a ok
    have "list_ex (\<lambda>c. case toQuote bi c of Inl e \<Rightarrow> True | Inr q \<Rightarrow> False) coins"
      by (simp add: early_failure_def)
    then obtain e where "map_throwing (toQuote bi) coins = Inl e"
      using map_throwing_Inl[of "toQuote bi" coins] by blast
    with FetchResponse b a ok show ?thesis
      by (simp add: fetchTopCryptos_def)
  qed
qed

text \<open>The loop that stores the prices leaves the top-10 list and \<open>lastUpdate\<close> alone.\<close>

lemma storePrices_keeps:
  "top10 (fst (storePrices bi coins cc)) = top10 cc \<and>
   clastUpdate (fst (storePrices bi coins cc)) = clastUpdate cc"
  by (induction coins arbitrary: cc) (auto split: sum.splits)

text \<open>
  C8 says that after a total failure of the adapter, an exception during the assembly
  included, the crypto cache is exactly what it was before the call. The code keeps
  that for every failure before its first assignment, but the loop that stores the
  prices runs after \<open>top10\<close> and \<open>prices\<close> have been overwritten, and it can still throw
  when it converts \<open>coin.id\<close> to a property key. For the answer with the two example coins,
  whatever the two built-ins are, \<open>fetchTopCryptos\<close> returns \<open>null\<close>, yet the top-10 list
  holds the two new quotes in place of the cached one, the prices hold the entry of the
  first coin and no longer the cached entry, and \<open>lastUpdate\<close> is still the old one.
\<close>

theorem fetchTopCryptos_bad_id_changes_cache:
  "fst (fetchTopCryptos bi fetch_bad_id server_with_crypto) = None \<and>
   top10 (cryptoCache server_with_crypto) = [quote_ethereum] \<and>
   top10 (cryptoCache (snd (fetchTopCryptos bi fetch_bad_id server_with_crypto))) =
     [\<lparr>q_id = Some (VStr ''bitcoin''), q_symbol = toUpperCase bi ''btc'',
       q_name = Some (VStr ''Bitcoin''), q_price = Some (VNum (Fin 60000)),
       q_change24h = Some (VNum (Fin (- 500))),
       q_changePercent24h = Some (VNum (Fin (- 83 / 100))),
       q_marketCap = Some (VNum (Fin 1200000000000)),
       q_image = Some (VStr ''https://example.org/btc.png'')\<rparr>,
      \<lparr>q_id = Some (VObj [(''toString'', VNum (Fin 0))]), q_symbol = toUpperCase bi ''xyz'',
       q_name = Some (VStr ''Mystery''), q_price = Some (VNum (Fin 1)),
       q_change24h = None, q_changePercent24h = None, q_marketCap = None, q_image = None\<rparr>] \<and>
   p_own (cprices (cryptoCache server_with_crypto)) ''ethereum'' = Some price_ethereum \<and>
   p_own (cprices (cryptoCache (snd (fetchTopCryptos bi fetch_bad_id server_with_crypto))))
     ''ethereum'' = None \<and>
   p_own (cprices (cryptoCache (snd (fetchTopCryptos bi fetch_bad_id server_with_crypto))))
     ''bitcoin'' =
     Some \<lparr>e_price = Some (VNum (Fin 60000)), e_symbol = toUpperCase bi ''btc'',
           e_name = Some (VStr ''Bitcoin''), e_change24h = Some (VNum (Fin (- 500))),
           e_changePercent24h = Some (VNum (Fin (- 83 / 100))),
           e_image = Some (VStr ''https://example.org/btc.png'')\<rparr> \<and>
   clastUpdate (cryptoCache (snd (fetchTopCryptos bi fetch_bad_id server_with_crypto))) = Some 0"
  by (simp add: fetchTopCryptos_def fetch_bad_id_def coin_bitcoin_def coin_bad_id_def
      toQuote_def toPrice_def toPropertyKey_def obj_set_def empty_obj_def
      server_with_crypto_def server_boot_def Let_def)

section \<open>Properties of the dashboard request\<close>

lemma buildResponse_returns: "\<exists>r. buildResponse tf st = Inr r"
  using calculateAdvice_returns[of tf "priceCache st" "priceHistory st" Gold]
        calculateAdvice_returns[of tf "priceCache st" "priceHistory st" Silver]
  by (auto simp: buildResponse_def)

lemma dashboard_state:
  "fst (snd (dashboard tf bi rq st)) =
     (let st1 = (if priceStale rq st then fetchNews (nfetch rq) (fetchPrices (pfetch rq) st) else st)
      in if cryptoStale rq st then snd (fetchTopCryptos bi (cfetch rq) st1) else st1)"
  by (simp add: dashboard_def Let_def priceStale_def cryptoStale_def split: sum.splits)

lemma dashboard_events:
  "snd (snd (dashboard tf bi rq st)) =
     (if priceStale rq st then [EvFetchPrices, EvFetchNews] else [])
       @ (if cryptoStale rq st then [EvFetchTopCryptos] else []) @ [EvRespond]"
proof -
  have "buildResponse tf s \<noteq> Inl e" for s e
    using buildResponse_returns[of tf s] by auto
  then show ?thesis
    by (simp add: dashboard_def Let_def priceStale_def cryptoStale_def split: sum.splits)
qed

lemma dashboard_response:
  "fst (dashboard tf bi rq st) = buildResponse tf (fst (snd (dashboard tf bi rq st)))"
  by (simp add: dashboard_def Let_def split: sum.splits)

text \<open>Each refresh writes its own variables only.\<close>

lemma fetchPrices_frame:
  "newsCache (fetchPrices env st) = newsCache st"
  "cryptoCache (fetchPrices env st) = cryptoCache st"
  by (simp_all add: fetchPrices_def Let_def split: option.splits)

lemma fetchPrices_cache:
  "priceCache (fetchPrices env st) =
     \<lparr>gold = Some (pgold (chosen env)), silver = Some (psilver (chosen env)),
      lastUpdate = Some (stamp env)\<rparr>"
  by (simp add: fetchPrices_def chosen_def Let_def split: option.splits)

lemma fetchNews_frame:
  "priceCache (fetchNews env st) = priceCache st"
  "priceHistory (fetchNews env st) = priceHistory st"
  "cryptoCache (fetchNews env st) = cryptoCache st"
  by (simp_all add: fetchNews_def split: prod.splits)

lemma fetchNews_stamp: "nlastUpdate (newsCache (fetchNews env st)) = Some (nstamp env)"
  by (simp add: fetchNews_def split: prod.splits)

lemma fetchNews_cache: "newsCache (fetchNews env st) = newsCache (fetchNews env st')"
  by (simp add: fetchNews_def split: prod.splits)

lemma fetchTopCryptos_frame:
  "priceCache (snd (fetchTopCryptos bi env st)) = priceCache st"
  "priceHistory (snd (fetchTopCryptos bi env st)) = priceHistory st"
  "newsCache (snd (fetchTopCryptos bi env st)) = newsCache st"
  by (auto simp: fetchTopCryptos_def Let_def
      split: crypto_result.splits coins_body.splits sum.splits prod.splits option.splits)

lemma fetchTopCryptos_cache:
  "cryptoCache st = cryptoCache st' \<Longrightarrow>
     cryptoCache (snd (fetchTopCryptos bi env st)) = cryptoCache (snd (fetchTopCryptos bi env st'))"
  by (auto simp: fetchTopCryptos_def Let_def
      split: crypto_result.splits coins_body.splits sum.splits prod.splits option.splits)

text \<open>
  C5, as the code has it. The handler tests the age of the price cache only: when
  \<open>priceCache.lastUpdate\<close> is absent or more than five minutes old, the price refresh and the
  news refresh complete before the response is sent, and the response is built from the
  refreshed caches; otherwise neither runs and the price cache, the history and the news
  cache are served as they are, whatever the age of the news cache. Independently, when
  \<open>cryptoCache.lastUpdate\<close> is absent or more than five minutes old the crypto refresh
  completes before the response is sent, and otherwise it does not run. With both caches
  fresh the server is left as it was and responding is the only event. The handler always
  sends a response.
\<close>

theorem dashboard_refresh:
  "(priceStale rq st \<longrightarrow>
      (\<exists>evs. snd (snd (dashboard tf bi rq st)) = [EvFetchPrices, EvFetchNews] @ evs @ [EvRespond]) \<and>
      priceCache (fst (snd (dashboard tf bi rq st))) = priceCache (fetchPrices (pfetch rq) st) \<and>
      lastUpdate (priceCache (fst (snd (dashboard tf bi rq st)))) = Some (stamp (pfetch rq)) \<and>
      priceHistory (fst (snd (dashboard tf bi rq st))) = priceHistory (fetchPrices (pfetch rq) st) \<and>
      newsCache (fst (snd (dashboard tf bi rq st))) = newsCache (fetchNews (nfetch rq) st) \<and>
      nlastUpdate (newsCache (fst (snd (dashboard tf bi rq st)))) = Some (nstamp (nfetch rq))) \<and>
   (\<not> priceStale rq st \<longrightarrow>
      EvFetchPrices \<notin> set (snd (snd (dashboard tf bi rq st))) \<and>
      EvFetchNews \<notin> set (snd (snd (dashboard tf bi rq st))) \<and>
      priceCache (fst (snd (dashboard tf bi rq st))) = priceCache st \<and>
      priceHistory (fst (snd (dashboard tf bi rq st))) = priceHistory st \<and>
      newsCache (fst (snd (dashboard tf bi rq st))) = newsCache st) \<and>
   (cryptoStale rq st \<longrightarrow>
      (\<exists>evs. snd (snd (dashboard tf bi rq st)) = evs @ [EvFetchTopCryptos, EvRespond]) \<and>
      cryptoCache (fst (snd (dashboard tf bi rq st))) =
        cryptoCache (snd (fetchTopCryptos bi (cfetch rq) st))) \<and>
   (\<not> cryptoStale rq st \<longrightarrow>
      EvFetchTopCryptos \<notin> set (snd (snd (dashboard tf bi rq st))) \<and>
      cryptoCache (fst (snd (dashboard tf bi rq st))) = cryptoCache st) \<and>
   (\<not> priceStale rq st \<and> \<not> cryptoStale rq st \<longrightarrow>
      fst (snd (dashboard tf bi rq st)) = st \<and> snd (snd (dashboard tf bi rq st)) = [EvRespond]) \<and>
   fst (dashboard tf bi rq st) = buildResponse tf (fst (snd (dashboard tf bi rq st))) \<and>
   (\<exists>r. fst (dashboard tf bi rq st) = Inr r)"
proof -
  let ?st1 = "fetchNews (nfetch rq) (fetchPrices (pfetch rq) st)"
  have c1: "cryptoCache ?st1 = cryptoCache st"
    by (simp add: fetchNews_frame fetchPrices_frame)
  have n1: "newsCache ?st1 = newsCache (fetchNews (nfetch rq) st)"
    by (rule fetchNews_cache)
  have p1: "priceCache ?st1 = priceCache (fetchPrices (pfetch rq) st)"
    and h1: "priceHistory ?st1 = priceHistory (fetchPrices (pfetch rq) st)"
    by (simp_all add: fetchNews_frame)
  have a: "priceStale rq st \<longrightarrow>
      (\<exists>evs. snd (snd (dashboard tf bi rq st)) = [EvFetchPrices, EvFetchNews] @ evs @ [EvRespond]) \<and>
      priceCache (fst (snd (dashboard tf bi rq st))) = priceCache (fetchPrices (pfetch rq) st) \<and>
      lastUpdate (priceCache (fst (snd (dashboard tf bi rq st)))) = Some (stamp (pfetch rq)) \<and>
      priceHistory (fst (snd (dashboard tf bi rq st))) = priceHistory (fetchPrices (pfetch rq) st) \<and>
      newsCache (fst (snd (dashboard tf bi rq st))) = newsCache (fetchNews (nfetch rq) st) \<and>
      nlastUpdate (newsCache (fst (snd (dashboard tf bi rq st)))) = Some (nstamp (nfetch rq))"
    using n1 p1 h1
    by (simp add: dashboard_state dashboard_events Let_def fetchTopCryptos_frame
        fetchNews_stamp fetchPrices_cache)
  have b: "\<not> priceStale rq st \<longrightarrow>
      EvFetchPrices \<notin> set (snd (snd (dashboard tf bi rq st))) \<and>
      EvFetchNews \<notin> set (snd (snd (dashboard tf bi rq st))) \<and>
      priceCache (fst (snd (dashboard tf bi rq st))) = priceCache st \<and>
      priceHistory (fst (snd (dashboard tf bi rq st))) = priceHistory st \<and>
      newsCache (fst (snd (dashboard tf bi rq st))) = newsCache st"
    by (simp add: dashboard_state dashboard_events Let_def fetchTopCryptos_frame)
  have c: "cryptoStale rq st \<longrightarrow>
      (\<exists>evs. snd (snd (dashboard tf bi rq st)) = evs @ [EvFetchTopCryptos, EvRespond]) \<and>
      cryptoCache (fst (snd (dashboard tf bi rq st))) =
        cryptoCache (snd (fetchTopCryptos bi (cfetch rq) st))"
    using fetchTopCryptos_cache[OF c1, of bi "cfetch rq"]
    by (simp add: dashboard_state dashboard_events Let_def)
  have d: "\<not> cryptoStale rq st \<longrightarrow>
      EvFetchTopCryptos \<notin> set (snd (snd (dashboard tf bi rq st))) \<and>
      cryptoCache (fst (snd (dashboard tf bi rq st))) = cryptoCache st"
    using c1 by (simp add: dashboard_state dashboard_events Let_def)
  have e: "\<not> priceStale rq st \<and> \<not> cryptoStale rq st \<longrightarrow>
      fst (snd (dashboard tf bi rq st)) = st \<and> snd (snd (dashboard tf bi rq st)) = [EvRespond]"
    by (simp add: dashboard_state dashboard_events Let_def)
  have f: "fst (dashboard tf bi rq st) = buildResponse tf (fst (snd (dashboard tf bi rq st)))"
    by (rule dashboard_response)
  have g: "\<exists>r. fst (dashboard tf bi rq st) = Inr r"
    unfolding f by (rule buildResponse_returns)
  from a b c d e f g show ?thesis by (intro conjI)
qed

theorem dashboard_refresh_witness:
  "priceStale request_1000s server_boot \<and> cryptoStale request_1000s server_boot \<and>
   snd (snd (dashboard toFixed_dec builtins_ascii request_1000s server_boot)) =
     [EvFetchPrices, EvFetchNews, EvFetchTopCryptos, EvRespond] \<and>
   lastUpdate (priceCache (fst (snd (dashboard toFixed_dec builtins_ascii request_1000s server_boot)))) = Some 1000000 \<and>
   nlastUpdate (newsCache (fst (snd (dashboard toFixed_dec builtins_ascii request_1000s server_boot)))) = Some 1000000 \<and>
   \<not> priceStale request_1000s server_news_old \<and> \<not> cryptoStale request_1000s server_news_old \<and>
   fst (snd (dashboard toFixed_dec builtins_ascii request_1000s server_news_old)) = server_news_old \<and>
   snd (snd (dashboard toFixed_dec builtins_ascii request_1000s server_news_old)) = [EvRespond]"
proof -
  have h1: "priceStale request_1000s server_boot"
    by (simp add: priceStale_def server_boot_def cache_boot_def cacheAge_def olderThan5min_def)
  have h2: "cryptoStale request_1000s server_boot"
    by (simp add: cryptoStale_def server_boot_def cacheAge_def olderThan5min_def)
  have h3: "\<not> priceStale request_1000s server_news_old"
    by (simp add: priceStale_def server_news_old_def request_1000s_def cacheAge_def
        olderThan5min_def)
  have h4: "\<not> cryptoStale request_1000s server_news_old"
    by (simp add: cryptoStale_def server_news_old_def request_1000s_def cacheAge_def
        olderThan5min_def)
  have ev: "snd (snd (dashboard toFixed_dec builtins_ascii request_1000s server_boot)) =
     [EvFetchPrices, EvFetchNews, EvFetchTopCryptos, EvRespond]"
    using h1 h2 by (simp add: dashboard_events)
  have s: "stamp (pfetch request_1000s) = 1000000" "nstamp (nfetch request_1000s) = 1000000"
    by (simp_all add: request_1000s_def free_fetch_def)
  from dashboard_refresh[of request_1000s server_boot toFixed_dec builtins_ascii] h1
  have "lastUpdate (priceCache (fst (snd (dashboard toFixed_dec builtins_ascii request_1000s server_boot))))
             = Some (stamp (pfetch request_1000s))"
    and "nlastUpdate (newsCache (fst (snd (dashboard toFixed_dec builtins_ascii request_1000s server_boot))))
             = Some (nstamp (nfetch request_1000s))"
    by blast+
  then have a: "lastUpdate (priceCache (fst (snd (dashboard toFixed_dec builtins_ascii request_1000s server_boot))))
             = Some 1000000"
    and b: "nlastUpdate (newsCache (fst (snd (dashboard toFixed_dec builtins_ascii request_1000s server_boot))))
             = Some 1000000"
    by (simp_all only: s)
  from dashboard_refresh[of request_1000s server_news_old toFixed_dec builtins_ascii] h3 h4
  have c: "fst (snd (dashboard toFixed_dec builtins_ascii request_1000s server_news_old)) = server_news_old"
    and d: "snd (snd (dashboard toFixed_dec builtins_ascii request_1000s server_news_old)) = [EvRespond]"
    by blast+
  from h1 h2 ev a b h3 h4 c d show ?thesis by (intro conjI)
qed

text \<open>
  The specification's wording of C5 lets a news cache older than five minutes trigger a
  refresh. At 1000 s the news cache of this server is 1000 s old, the price cache 100 s: the
  handler responds without any refresh and the news cache keeps its \<open>lastUpdate\<close> of 0.
\<close>

theorem dashboard_news_counterexample:
  "olderThan5min (cacheAge (now1 request_1000s) (nlastUpdate (newsCache server_news_old))) \<and>
   snd (snd (dashboard toFixed_dec builtins_ascii request_1000s server_news_old)) = [EvRespond] \<and>
   newsCache (fst (snd (dashboard toFixed_dec builtins_ascii request_1000s server_news_old))) =
     newsCache server_news_old \<and>
   nlastUpdate (newsCache (fst (snd (dashboard toFixed_dec builtins_ascii request_1000s server_news_old)))) = Some 0"
proof -
  have h3: "\<not> priceStale request_1000s server_news_old"
    by (simp add: priceStale_def server_news_old_def request_1000s_def cacheAge_def
        olderThan5min_def)
  have h4: "\<not> cryptoStale request_1000s server_news_old"
    by (simp add: cryptoStale_def server_news_old_def request_1000s_def cacheAge_def
        olderThan5min_def)
  have n: "olderThan5min (cacheAge (now1 request_1000s) (nlastUpdate (newsCache server_news_old)))"
    by (simp add: server_news_old_def request_1000s_def cacheAge_def olderThan5min_def)
  have l: "nlastUpdate (newsCache server_news_old) = Some 0"
    by (simp add: server_news_old_def)
  from h3 h4 n l show ?thesis
    by (simp add: dashboard_events dashboard_state)
qed

end
